theory Spec2Isabelle
  imports Complex_Main "HOL-Library.Multiset"
begin

section \<open>Python values used by \<open>mod.py\<close>\<close>

text \<open>
  Strings are \<open>string\<close>: a character is read as the code point of its number, so the
  strings of the model are Python's strings over the code points below 256. Among these,
  \<open>str.isnumeric\<close> holds of the decimal digits 0..9 and of the superscripts and fractions
  U+00B2, U+00B3, U+00B9, U+00BC, U+00BD and U+00BE; only 0..9 are decimal digits.
  \<open>str.lower\<close> maps A..Z and U+00C0..U+00DE (without U+00D7) to the letter 32 code points on.
  Exceptions are values of \<open>pyerror\<close>; a function that can raise returns
  \<open>pyerror + 'a\<close>, with \<open>Inl\<close> for the exception. \<open>KeyboardInterrupt\<close> and
  \<open>SystemExit\<close> derive from \<open>BaseException\<close> and not from \<open>Exception\<close>; \<open>ExternalError\<close>
  stands for an exception of class \<open>Exception\<close> that a function outside the modelled file
  raises (\<open>OSError\<close> from a copy, say).
\<close>

datatype pyerror = AttributeError | KeyError | IndexError | TypeError | ValueError
  | NotImplementedError | ExternalError | KeyboardInterrupt | SystemExit

text \<open>\<open>isinstance(ex, Exception)\<close>: what a handler \<open>except Exception\<close> catches.\<close>

fun is_Exception :: "pyerror \<Rightarrow> bool" where
  "is_Exception KeyboardInterrupt = False"
| "is_Exception SystemExit = False"
| "is_Exception ex = True"

definition isdecimal_char :: "char \<Rightarrow> bool" where
  "isdecimal_char c = (c \<in> set ''0123456789'')"

definition isnumeric_char :: "char \<Rightarrow> bool" where
  "isnumeric_char c =
     (isdecimal_char c
      \<or> c \<in> set [CHR 0xB2, CHR 0xB3, CHR 0xB9, CHR 0xBC, CHR 0xBD, CHR 0xBE])"

definition isnumeric :: "string \<Rightarrow> bool" where
  "isnumeric s = (s \<noteq> [] \<and> list_all isnumeric_char s)"

text \<open>
  \<open>int(s)\<close> for a string with \<open>s.isnumeric()\<close> (the source calls it under \<open>is_numeric\<close>
  only, so \<open>s\<close> has no sign, blank or underscore): the value of the decimal digits;
  \<open>ValueError\<close> when a character is not a decimal digit, and when there are more digits
  than \<open>sys.int_max_str_digits\<close>, 4300 unless the interpreter is told otherwise.
\<close>

definition int_max_str_digits :: nat where
  "int_max_str_digits = 4300"

definition py_int :: "string \<Rightarrow> pyerror + int" where
  "py_int s =
     (if s \<noteq> [] \<and> list_all isdecimal_char s \<and> length s \<le> int_max_str_digits
      then Inr (foldl (\<lambda>a c. 10 * a + (int (of_char c) - 48)) 0 s)
      else Inl ValueError)"

definition lower_char :: "char \<Rightarrow> char" where
  "lower_char c =
     (if ((65::nat) \<le> of_char c \<and> of_char c \<le> (90::nat))
         \<or> ((192::nat) \<le> of_char c \<and> of_char c \<le> (222::nat) \<and> of_char c \<noteq> (215::nat))
      then char_of (of_char c + (32::nat)) else c)"

definition lower :: "string \<Rightarrow> string" where
  "lower s = map lower_char s"

text \<open>\<open>s.find(c)\<close>: the index of the first occurrence, \<open>None\<close> for Python's \<open>-1\<close>.\<close>

definition str_find :: "char \<Rightarrow> string \<Rightarrow> nat option" where
  "str_find c s = (if c \<in> set s then Some (length (takeWhile (\<lambda>d. d \<noteq> c) s)) else None)"

text \<open>\<open>s.split(c)\<close>: always at least one piece.\<close>

fun split_on :: "char \<Rightarrow> string \<Rightarrow> string list" where
  "split_on d [] = [[]]"
| "split_on d (c # cs) =
     (if c = d then [] # split_on d cs
      else (case split_on d cs of [] \<Rightarrow> [[c]] | w # ws \<Rightarrow> (c # w) # ws))"

text \<open>Python compares strings lexicographically by code point; a proper prefix is smaller.\<close>

fun str_lt :: "string \<Rightarrow> string \<Rightarrow> bool" where
  "str_lt [] [] = False"
| "str_lt [] (y # ys) = True"
| "str_lt (x # xs) [] = False"
| "str_lt (x # xs) (y # ys) =
     (if (of_char x :: nat) < of_char y then True
      else if (of_char y :: nat) < of_char x then False
      else str_lt xs ys)"

definition str_gt :: "string \<Rightarrow> string \<Rightarrow> bool" where
  "str_gt a b = str_lt b a"

section \<open>\<open>Mod.Version\<close>\<close>

text \<open>
  The fields set by \<open>Version.__init__\<close>. \<open>is_numeric\<close> is computed there once from
  \<open>major\<close>, \<open>minor\<close> and \<open>patch\<close>, which are never assigned again, so it is a function of
  the three fields.
\<close>

record version =
  major :: string
  minor :: string
  patch :: string
  identifier' :: string

definition Version :: "string \<Rightarrow> version" where
  "Version version_str =
     (let identifier_index = str_find (CHR ''-'') version_str;
          has_minor_ver = (CHR ''.'' \<in> set version_str);
          ident = (case identifier_index of None \<Rightarrow> []
                   | Some i \<Rightarrow> drop (i + 1) version_str);
          numeric_version = (case identifier_index of None \<Rightarrow> version_str
                             | Some i \<Rightarrow> take i version_str);
          version_split = split_on (CHR ''.'') numeric_version;
          version_levels = length version_split
      in if has_minor_ver then
           \<lparr> major = (if version_levels > 0 then take 4 (version_split ! 0) else ''0''),
             minor = (if version_levels > 1 then take 4 (version_split ! 1) else ''0''),
             patch = (if version_levels > 3 then concat (drop 2 version_split)
                      else if version_levels > 2 then take 10 (version_split ! 2)
                      else ''0''),
             identifier' = ident \<rparr>
         else
           \<lparr> major = numeric_version, minor = ''0'', patch = ''0'', identifier' = ident \<rparr>)"

definition is_numeric :: "version \<Rightarrow> bool" where
  "is_numeric v = list_all isnumeric [major v, minor v, patch v]"

text \<open>
  The tuple \<open>(int(v.major), int(v.minor), int(v.patch))\<close>, built from left to right; the
  first \<open>int()\<close> that raises ends it.
\<close>

definition int_tuple :: "version \<Rightarrow> pyerror + (int \<times> int \<times> int)" where
  "int_tuple v =
     (case py_int (major v) of Inl e \<Rightarrow> Inl e
      | Inr a \<Rightarrow>
     (case py_int (minor v) of Inl e \<Rightarrow> Inl e
      | Inr b \<Rightarrow>
     (case py_int (patch v) of Inl e \<Rightarrow> Inl e
      | Inr c \<Rightarrow> Inr (a, b, c))))"

text \<open>
  \<open>Version.__eq__\<close>. The first branch builds the tuple of \<open>self\<close>, then that of \<open>other\<close>.
  The second branch compares \<open>self\<close> with \<open>self\<close>, as the source does.
\<close>

definition Version_eq :: "version \<Rightarrow> version \<Rightarrow> pyerror + bool" where
  "Version_eq self other =
     (if is_numeric self \<and> is_numeric other
      then (case int_tuple self of Inl e \<Rightarrow> Inl e
            | Inr a \<Rightarrow>
           (case int_tuple other of Inl e \<Rightarrow> Inl e
            | Inr b \<Rightarrow> Inr (a = b)))
      else Inr ((lower (major self), lower (minor self), lower (patch self))
                = (lower (major self), lower (minor self), lower (patch self))))"

text \<open>Python orders tuples lexicographically.\<close>

definition tuple_lt :: "int \<times> int \<times> int \<Rightarrow> int \<times> int \<times> int \<Rightarrow> bool" where
  "tuple_lt a b =
     (case a of (a1, a2, a3) \<Rightarrow> case b of (b1, b2, b3) \<Rightarrow>
        a1 < b1 \<or> (a1 = b1 \<and> (a2 < b2 \<or> (a2 = b2 \<and> a3 < b3))))"

text \<open>
  \<open>Version.__lt__\<close>. In the second branch the source reads \<open>self.path\<close>, an attribute
  that no \<open>Version\<close> has: building the left tuple raises \<open>AttributeError\<close>.
\<close>

definition Version_lt :: "version \<Rightarrow> version \<Rightarrow> pyerror + bool" where
  "Version_lt self other =
     (if is_numeric self \<and> is_numeric other
      then (case int_tuple self of Inl e \<Rightarrow> Inl e
            | Inr a \<Rightarrow>
           (case int_tuple other of Inl e \<Rightarrow> Inl e
            | Inr b \<Rightarrow> Inr (tuple_lt a b)))
      else Inl AttributeError)"

text \<open>
  The other comparisons: \<open>!=\<close> is Python's default (the negation of \<open>__eq__\<close>), and
  \<open>functools.total_ordering\<close> derives \<open><=\<close>, \<open>>\<close> and \<open>>=\<close> from \<open>__lt__\<close>:
  \<open>a <= b\<close> is \<open>a < b or a == b\<close>, \<open>a > b\<close> is \<open>not a < b and a != b\<close>, \<open>a >= b\<close> is
  \<open>not a < b\<close>; \<open>or\<close> and \<open>and\<close> evaluate their right operand only when the left one
  does not decide.
\<close>

definition Version_ne :: "version \<Rightarrow> version \<Rightarrow> pyerror + bool" where
  "Version_ne self other =
     (case Version_eq self other of Inl e \<Rightarrow> Inl e | Inr r \<Rightarrow> Inr (\<not> r))"

definition Version_le :: "version \<Rightarrow> version \<Rightarrow> pyerror + bool" where
  "Version_le self other =
     (case Version_lt self other of Inl e \<Rightarrow> Inl e
      | Inr op_result \<Rightarrow> if op_result then Inr True else Version_eq self other)"

definition Version_gt :: "version \<Rightarrow> version \<Rightarrow> pyerror + bool" where
  "Version_gt self other =
     (case Version_lt self other of Inl e \<Rightarrow> Inl e
      | Inr op_result \<Rightarrow> if op_result then Inr False else Version_ne self other)"

definition Version_ge :: "version \<Rightarrow> version \<Rightarrow> pyerror + bool" where
  "Version_ge self other =
     (case Version_lt self other of Inl e \<Rightarrow> Inl e
      | Inr op_result \<Rightarrow> Inr (\<not> op_result))"

section \<open>Version constraints\<close>

text \<open>
  The operators of the module \<open>operator\<close> that the constraint strings select, and the parsing
  of a constraint string as \<open>check_requirement\<close> and \<open>check_incompatible\<close> do it: a
  prefix selects the operator (none means \<open>operator.eq\<close>), then every \<open>>\<close>, \<open><\<close> and \<open>=\<close>
  is removed from the string.
\<close>

datatype compare_op = Ge | Le | Gt | Lt | Eq

definition parse_compare_operation :: "string \<Rightarrow> compare_op" where
  "parse_compare_operation version =
     (if take 2 version = ''>='' then Ge
      else if take 2 version = ''<='' then Le
      else if take 1 version = ''>'' then Gt
      else if take 1 version = ''<'' then Lt
      else Eq)"

definition strip_signs :: "string \<Rightarrow> string" where
  "strip_signs version = filter (\<lambda>c. c \<notin> set ''><='') version"

fun compare_operation :: "compare_op \<Rightarrow> version \<Rightarrow> version \<Rightarrow> pyerror + bool" where
  "compare_operation Ge a b = Version_ge a b"
| "compare_operation Le a b = Version_le a b"
| "compare_operation Gt a b = Version_gt a b"
| "compare_operation Lt a b = Version_lt a b"
| "compare_operation Eq a b = Version_eq a b"

text \<open>
  \<open>compare_ops\<close> is a Python set of operators. The model keeps its elements in a list without
  repetition; \<open>list(compare_ops)\<close> enumerates the set in an order that the interpreter
  chooses, so that order is a parameter \<open>set_order\<close> of the functions that need it.
\<close>

definition set_add :: "'a \<Rightarrow> 'a list \<Rightarrow> 'a list" where
  "set_add x xs = (if x \<in> set xs then xs else xs @ [x])"

datatype style = Strict_style | Range_style | Mixed_style

text \<open>
  The style of a constraint list, from \<open>compare_ops = list(compare_ops)\<close> on (the same lines
  stand in \<open>check_requirement\<close> and in \<open>check_incompatible\<close>). The second test of the
  source reads \<open>(operator.lt, operator.lt)\<close>.
\<close>

definition derive_style :: "compare_op list \<Rightarrow> style" where
  "derive_style compare_ops =
     (let len_ops = length compare_ops in
      if len_ops = 1 \<and> Eq \<in> set compare_ops then Strict_style
      else if len_ops = 2 \<and> Eq \<notin> set compare_ops then
        (if compare_ops ! 0 \<in> {Ge, Gt} \<and> compare_ops ! 1 \<in> {Le, Lt} then Range_style
         else if compare_ops ! 0 \<in> {Lt, Lt} \<and> compare_ops ! 1 \<in> {Ge, Gt} then Range_style
         else Mixed_style)
      else Mixed_style)"

section \<open>Mods, prerequisites and installed content\<close>

text \<open>
  Dictionaries are association lists read with \<open>map_of\<close>: \<open>d.get(k)\<close> is \<open>map_of d k\<close> and
  \<open>d[k]\<close> is \<open>getitem d k\<close>, which raises \<open>KeyError\<close> on a missing key. The installed content
  maps a mod name to its entry, and an entry maps \<open>version\<close>, \<open>build\<close>, \<open>display_name\<close>,
  \<open>base\<close> and the option names to strings. The names, the version constraints and the
  values of an installed entry are strings throughout this part: it models the methods on
  the data they are written for.
\<close>

definition getitem :: "('k \<times> 'v) list \<Rightarrow> 'k \<Rightarrow> pyerror + 'v" where
  "getitem d k = (case map_of d k of None \<Rightarrow> Inl KeyError | Some v \<Rightarrow> Inr v)"

type_synonym installed_entry = "(string \<times> string) list"
type_synonym installed_content = "(string \<times> installed_entry) list"
type_synonym descriptions = "(string \<times> string) list"

text \<open>\<open>existing_content[n]\<close> where \<open>n\<close> is a name or \<open>None\<close> (never a key).\<close>

definition get_installed :: "installed_content \<Rightarrow> string option \<Rightarrow> pyerror + installed_entry" where
  "get_installed existing_content n =
     (case n of None \<Rightarrow> Inl KeyError | Some k \<Rightarrow> getitem existing_content k)"

text \<open>A path is the list of the components given to \<open>os.path.join\<close>.\<close>

type_synonym path = "string list"

text \<open>
  An entry of \<open>prerequisites\<close> or \<open>incompatible\<close>, after \<open>Mod.__init__\<close> has turned a single
  name or version into a list. \<open>None\<close> stands for a key that the entry does not have.
\<close>

record prereq =
  prereq_name :: "string list"
  prereq_versions :: "string list option"
  prereq_optional_content :: "string list option"
  prereq_name_label :: "string list option"

text \<open>\<open>x and x is not None\<close> for an optional list.\<close>

fun truthy :: "'a list option \<Rightarrow> bool" where
  "truthy None = False"
| "truthy (Some xs) = (xs \<noteq> [])"

fun the_list :: "'a list option \<Rightarrow> 'a list" where
  "the_list None = []"
| "the_list (Some xs) = xs"

text \<open>
  The messages. The source builds them with the localisation function \<open>tr\<close>, which is not
  part of the modelled file; a message is kept as the key of its text and its arguments.
  A label that the source joins with a translated "or" or "and" is kept as the list of
  its parts, and an empty list is the source's empty label.
\<close>

datatype msg =
    Compatch_mod_incompatible_with_comrem
  | Content_requirement_not_met
  | Requirement_name string "string list"
  | Required_mod_not_found
  | Required_base
  | Requirement_line bool "string list" "string list" "string list"
  | Version_available "string option"
  | Usupported_patcher_version string "string list" string
  | Check_for_a_new_version
  | Found_incompatible bool "string list" "string list" "string list"

text \<open>\<open>Mod.OptionalContent\<close>: the methods modelled here read its \<open>name\<close> only.\<close>

record option_content =
  option_name :: string

record Mod =
  name :: string
  display_name :: string
  version :: string
  build :: string
  prerequisites :: "prereq list"
  incompatible :: "prereq list"
  patcher_version_requirement :: "string list"
  distibution_dir :: path
  no_base_content :: bool
  optional_content :: "option_content list option"
  requirements_style :: style
  incompatibles_style :: style
  individual_require_status :: "(prereq \<times> bool \<times> msg list) list"
  individual_incomp_status :: "(prereq \<times> bool \<times> msg list) list"

section \<open>\<open>Mod.check_requirement\<close>\<close>

text \<open>The first loop: the last alternative name that is installed.\<close>

definition required_mod :: "string list \<Rightarrow> installed_content \<Rightarrow> string option" where
  "required_mod names existing_content =
     foldl (\<lambda>required_mod_name possible_prereq_mod.
              if map_of existing_content possible_prereq_mod \<noteq> None
              then Some possible_prereq_mod else required_mod_name) None names"

text \<open>
  The loop that builds \<open>name_label\<close>: the display name of an installed alternative (read with
  \<open>existing_mod["display_name"]\<close>), the technical name of one that is not installed.
\<close>

fun name_label_loop :: "installed_content \<Rightarrow> string list \<Rightarrow> pyerror + string list" where
  "name_label_loop existing_content [] = Inr []"
| "name_label_loop existing_content (service_name # rest) =
     (case (case map_of existing_content service_name of
              None \<Rightarrow> Inr service_name
            | Some existing_mod \<Rightarrow> getitem existing_mod ''display_name'') of
        Inl e \<Rightarrow> Inl e
      | Inr label \<Rightarrow>
          (case name_label_loop existing_content rest of
             Inl e \<Rightarrow> Inl e
           | Inr labels \<Rightarrow> Inr (label # labels)))"

definition only_technical_name_available :: "installed_content \<Rightarrow> string list \<Rightarrow> bool" where
  "only_technical_name_available existing_content names =
     list_ex (\<lambda>service_name. map_of existing_content service_name = None) names"

text \<open>
  The body of the loop over \<open>prereq_versions\<close> for one constraint string: the value that the
  loop assigns to \<open>version_validated\<close>.
\<close>

definition requirement_constraint :: "string \<Rightarrow> string \<Rightarrow> pyerror + bool" where
  "requirement_constraint installed_version constraint =
     (let compare_op = parse_compare_operation constraint;
          parsed_existing_ver = Version installed_version;
          parsed_required_ver = Version (strip_signs constraint)
      in case compare_operation compare_op parsed_existing_ver parsed_required_ver of
           Inl e \<Rightarrow> Inl e
         | Inr r \<Rightarrow>
             Inr (if compare_op = Eq \<and> identifier' parsed_required_ver \<noteq> []
                     \<and> identifier' parsed_existing_ver \<noteq> identifier' parsed_required_ver
                  then False else r))"

text \<open>
  The loop over \<open>prereq_versions\<close>. Its state is \<open>(version_validated, compare_ops)\<close>; each
  round reads \<open>existing_content[required_mod_name]["version"]\<close> again and assigns
  \<open>version_validated\<close>.
\<close>

fun versions_loop ::
  "installed_content \<Rightarrow> string option \<Rightarrow> string list \<Rightarrow> bool \<times> compare_op list
     \<Rightarrow> pyerror + (bool \<times> compare_op list)" where
  "versions_loop existing_content required_mod_name [] state = Inr state"
| "versions_loop existing_content required_mod_name (constraint # rest) (version_validated, compare_ops) =
     (case get_installed existing_content required_mod_name of
        Inl e \<Rightarrow> Inl e
      | Inr existing_mod \<Rightarrow>
          (case getitem existing_mod ''version'' of
             Inl e \<Rightarrow> Inl e
           | Inr installed_version \<Rightarrow>
               (case requirement_constraint installed_version constraint of
                  Inl e \<Rightarrow> Inl e
                | Inr r \<Rightarrow>
                    versions_loop existing_content required_mod_name rest
                      (r, set_add (parse_compare_operation constraint) compare_ops))))"

text \<open>The loop over the required options of an installed mod.\<close>

fun optional_content_loop ::
  "installed_entry \<Rightarrow> string list \<Rightarrow> string list \<Rightarrow> bool \<times> msg list \<Rightarrow> bool \<times> msg list" where
  "optional_content_loop existing_mod name_label [] state = state"
| "optional_content_loop existing_mod name_label (option # rest) (optional_content_validated, error_msg) =
     (if map_of existing_mod option = None \<or> map_of existing_mod option = Some ''skip''
      then optional_content_loop existing_mod name_label rest
             (False,
              (if Content_requirement_not_met \<in> set error_msg then error_msg
               else error_msg @ [Content_requirement_not_met])
              @ [Requirement_name option name_label])
      else optional_content_loop existing_mod name_label rest
             (optional_content_validated, error_msg))"

text \<open>
  What a call of \<open>check_requirement\<close> leaves: the returned pair \<open>(validated, error_msg)\<close>,
  the values of \<open>self.requirements_style\<close> and of \<open>prereq["name_label"]\<close> after the call,
  and the three local verdicts, so that theorems can speak about them.
\<close>

record requirement_result =
  validated :: bool
  error_msg :: "msg list"
  name_validated :: bool
  version_validated :: bool
  optional_content_validated :: bool
  style_after :: style
  name_label :: "string list"

definition append_new :: "'a \<Rightarrow> 'a list \<Rightarrow> 'a list" where
  "append_new x xs = (if x \<in> set xs then xs else xs @ [x])"

definition check_requirement ::
  "(compare_op list \<Rightarrow> compare_op list) \<Rightarrow> Mod \<Rightarrow> prereq \<Rightarrow> installed_content
     \<Rightarrow> descriptions \<Rightarrow> bool \<Rightarrow> pyerror + requirement_result" where
  "check_requirement set_order self prereq existing_content existing_content_descriptions
       is_compatch_env =
     (let required_mod_name = required_mod (prereq_name prereq) existing_content;
          compatch_on_comrem =
            (required_mod_name = Some ''community_patch''
             \<and> map_of existing_content ''community_remaster'' \<noteq> None
             \<and> name self \<noteq> ''community_remaster''
             \<and> ''community_remaster'' \<notin> set (prereq_name prereq));
          name_ok = (required_mod_name \<noteq> None \<and> \<not> compatch_on_comrem);
          error_msg0 = (if compatch_on_comrem then [Compatch_mod_incompatible_with_comrem] else []);
          only_technical = only_technical_name_available existing_content (prereq_name prereq);
          version_label = (if truthy (prereq_versions prereq)
                           then the_list (prereq_versions prereq) else []);
          optional_content_label = (if truthy (prereq_optional_content prereq)
                                    then the_list (prereq_optional_content prereq) else [])
      in case name_label_loop existing_content (prereq_name prereq) of
           Inl e \<Rightarrow> Inl e
         | Inr labels \<Rightarrow>
       (case (if truthy (prereq_versions prereq) \<and> name_ok
              then versions_loop existing_content required_mod_name
                     (the_list (prereq_versions prereq)) (True, [])
              else Inr (True, [])) of
           Inl e \<Rightarrow> Inl e
         | Inr (version_ok, compare_ops) \<Rightarrow>
       (case (if truthy (prereq_optional_content prereq) \<and> name_ok \<and> version_ok
              then (case get_installed existing_content required_mod_name of
                      Inl e \<Rightarrow> Inl e
                    | Inr existing_mod \<Rightarrow>
                        Inr (optional_content_loop existing_mod labels
                               (the_list (prereq_optional_content prereq)) (True, error_msg0)))
              else Inr (True, error_msg0)) of
           Inl e \<Rightarrow> Inl e
         | Inr (optional_ok, error_msg1) \<Rightarrow>
       (let new_style = (if truthy (prereq_versions prereq) \<and> name_ok
                         then derive_style (set_order compare_ops)
                         else requirements_style self);
            all_ok = (name_ok \<and> version_ok \<and> optional_ok);
            installed_description =
               (case required_mod_name of None \<Rightarrow> None
                | Some n \<Rightarrow> map_of existing_content_descriptions n);
            error_msg2 =
               (if all_ok then error_msg1
                else
                  (let with_line =
                         append_new (if name_ok then Required_base else Required_mod_not_found)
                           error_msg1
                         @ [Requirement_line only_technical labels version_label
                              optional_content_label]
                   in if installed_description \<noteq> None
                      then append_new (Version_available installed_description) with_line
                      else if is_compatch_env \<and> ''community_remaster'' \<in> set (prereq_name prereq)
                      then append_new
                             (Version_available
                                (map_of existing_content_descriptions ''community_patch''))
                             with_line
                      else with_line))
        in Inr \<lparr> validated = all_ok, error_msg = error_msg2,
                 name_validated = name_ok, version_validated = version_ok,
                 optional_content_validated = optional_ok,
                 style_after = new_style, name_label = labels \<rparr>))))"

section \<open>\<open>Mod.compatible_with_mod_manager\<close> and \<open>Mod.check_requirements\<close>\<close>

text \<open>Here a string without a prefix means \<open>operator.ge\<close>, and \<open>=\<close> selects \<open>operator.eq\<close>.\<close>

definition parse_manager_operation :: "string \<Rightarrow> compare_op" where
  "parse_manager_operation constraint =
     (if take 2 constraint = ''>='' then Ge
      else if take 2 constraint = ''<='' then Le
      else if take 1 constraint = ''>'' then Gt
      else if take 1 constraint = ''<'' then Lt
      else if take 1 constraint = ''='' then Eq
      else Ge)"

text \<open>The loop over \<open>patcher_version_requirement\<close>; its state is
  \<open>(compatible, mod_manager_too_new)\<close>. Both versions have their identifier removed.\<close>

fun manager_loop :: "version \<Rightarrow> string list \<Rightarrow> bool \<times> bool \<Rightarrow> pyerror + (bool \<times> bool)" where
  "manager_loop patcher_version_parsed [] state = Inr state"
| "manager_loop patcher_version_parsed (constraint # rest) (compatible, mod_manager_too_new) =
     (let compare_op = parse_manager_operation constraint;
          parsed_required_ver = (Version (strip_signs constraint))\<lparr>identifier' := []\<rparr>
      in case (if compare_op = Eq
               then (case Version_lt parsed_required_ver patcher_version_parsed of
                       Inl e \<Rightarrow> Inl e
                     | Inr older \<Rightarrow> Inr (mod_manager_too_new \<or> older))
               else Inr mod_manager_too_new) of
           Inl e \<Rightarrow> Inl e
         | Inr too_new \<Rightarrow>
             (case compare_operation compare_op patcher_version_parsed parsed_required_ver of
                Inl e \<Rightarrow> Inl e
              | Inr r \<Rightarrow> manager_loop patcher_version_parsed rest (compatible \<and> r, too_new)))"

text \<open>The method returns the pair \<open>(compatible, error_msg)\<close>; the text of the message is
  kept as the list of its parts, empty for the empty string.\<close>

definition compatible_with_mod_manager :: "Mod \<Rightarrow> string \<Rightarrow> pyerror + (bool \<times> msg list)" where
  "compatible_with_mod_manager self patcher_version =
     (case manager_loop ((Version patcher_version)\<lparr>identifier' := []\<rparr>)
             (patcher_version_requirement self) (True, False) of
        Inl e \<Rightarrow> Inl e
      | Inr (compatible, mod_manager_too_new) \<Rightarrow>
          Inr (compatible,
               if compatible then []
               else Usupported_patcher_version (display_name self)
                      (patcher_version_requirement self) patcher_version
                    # (if mod_manager_too_new \<and> name self = ''community_remaster''
                       then [Check_for_a_new_version] else [])))"

text \<open>
  Whether the loop of \<open>check_requirements\<close> passes over a prerequisite with \<open>continue\<close>;
  \<open>prereq["name"][0]\<close> raises \<open>IndexError\<close> on an empty list of names.
\<close>

definition skipped_prereq :: "Mod \<Rightarrow> prereq \<Rightarrow> pyerror + bool" where
  "skipped_prereq self prereq =
     (if name self = ''community_remaster''
      then (case prereq_name prereq of
              [] \<Rightarrow> Inl IndexError
            | first_name # others \<Rightarrow> Inr (first_name = ''community_patch''))
      else Inr False)"

text \<open>
  The state of the loop over \<open>self.prerequisites\<close>: \<open>requirements_met\<close>, the messages, the
  mod (its \<open>requirements_style\<close> and \<open>individual_require_status\<close> change) and the entries
  passed so far (a checked entry has its \<open>name_label\<close> set).
\<close>

type_synonym requirements_state = "bool \<times> msg list \<times> Mod \<times> prereq list"

definition requirement_step ::
  "(compare_op list \<Rightarrow> compare_op list) \<Rightarrow> installed_content \<Rightarrow> descriptions \<Rightarrow> bool
     \<Rightarrow> prereq \<Rightarrow> requirements_state \<Rightarrow> pyerror + requirements_state" where
  "requirement_step set_order existing_content existing_content_descriptions is_compatch_env
       prereq state =
     (case state of (requirements_met, messages, self, passed) \<Rightarrow>
        (case check_requirement set_order self prereq existing_content
                existing_content_descriptions is_compatch_env of
           Inl e \<Rightarrow> Inl e
         | Inr r \<Rightarrow>
             (let labelled = prereq\<lparr>prereq_name_label := Some (name_label r)\<rparr>
              in Inr (requirements_met \<and> validated r,
                      messages @ error_msg r,
                      self\<lparr>requirements_style := style_after r,
                           individual_require_status :=
                             individual_require_status self @ [(labelled, validated r, error_msg r)]\<rparr>,
                      passed @ [labelled]))))"

fun requirements_loop ::
  "(compare_op list \<Rightarrow> compare_op list) \<Rightarrow> installed_content \<Rightarrow> descriptions \<Rightarrow> bool
     \<Rightarrow> prereq list \<Rightarrow> requirements_state \<Rightarrow> pyerror + requirements_state" where
  "requirements_loop set_order existing_content descs is_compatch_env [] state = Inr state"
| "requirements_loop set_order existing_content descs is_compatch_env (prereq # rest) state =
     (case state of (requirements_met, messages, self, passed) \<Rightarrow>
        (case skipped_prereq self prereq of
           Inl e \<Rightarrow> Inl e
         | Inr True \<Rightarrow>
             requirements_loop set_order existing_content descs is_compatch_env rest
               (requirements_met, messages, self, passed @ [prereq])
         | Inr False \<Rightarrow>
             (case requirement_step set_order existing_content descs is_compatch_env prereq state of
                Inl e \<Rightarrow> Inl e
              | Inr state' \<Rightarrow>
                  requirements_loop set_order existing_content descs is_compatch_env rest state')))"

text \<open>
  \<open>check_requirements\<close> returns \<open>(requirements_met, error_msg)\<close>; the third component is the
  mod after the call. \<open>compatible_with_mod_manager\<close> returns a pair, and \<open>not\<close> of a pair is
  false: the branch under \<open>if not self.compatible_with_mod_manager(patcher_version)\<close> is never
  taken, and the call matters only when it raises.
\<close>

definition check_requirements ::
  "(compare_op list \<Rightarrow> compare_op list) \<Rightarrow> Mod \<Rightarrow> installed_content \<Rightarrow> descriptions
     \<Rightarrow> string \<Rightarrow> pyerror + (bool \<times> msg list \<times> Mod)" where
  "check_requirements set_order self existing_content existing_content_descriptions
       patcher_version =
     (let is_compatch_env = (map_of existing_content ''community_remaster'' = None
                             \<and> map_of existing_content ''community_patch'' \<noteq> None)
      in case (if patcher_version \<noteq> [] then compatible_with_mod_manager self patcher_version
               else Inr (True, [])) of
           Inl e \<Rightarrow> Inl e
         | Inr manager \<Rightarrow>
             (case requirements_loop set_order existing_content existing_content_descriptions
                     is_compatch_env (prerequisites self)
                     (True, [], self\<lparr>individual_require_status := []\<rparr>, []) of
                Inl e \<Rightarrow> Inl e
              | Inr (requirements_met, messages, self', passed) \<Rightarrow>
                  Inr (requirements_met,
                       if messages \<noteq> [] then messages @ [Check_for_a_new_version] else messages,
                       self'\<lparr>prerequisites := passed\<rparr>)))"

section \<open>\<open>Mod.check_reinstallability\<close>\<close>

text \<open>
  The third component of the result is the key of the warning text. The text of
  \<open>cant_reinstall_over_other_mods\<close> lists display names in the order in which Python
  enumerates a set of strings; the model keeps the multiset of these names.
\<close>

datatype reinstall_warning =
    No_warning
  | Cant_reinstall_over_other_mods "string multiset"
  | Complex_safe_reinstall
  | Safe_reinstall
  | Complex_unsafe_reinstall
  | Unsafe_reinstall
  | Cant_reinstall_over_newer_build
  | Cant_reinstall_over_other_version

text \<open>
  The installed mods that are neither this mod nor named by one of its prerequisites. The
  source holds them in a set; the list here has the elements of that set (it is used for
  the test whether the set is empty, and for the multiset of the display names).
\<close>

definition existing_other_mods :: "Mod \<Rightarrow> installed_content \<Rightarrow> string list" where
  "existing_other_mods self existing_content =
     (let self_and_prereqs = name self # concat (map prereq_name (prerequisites self))
      in filter (\<lambda>n. n \<notin> set self_and_prereqs) (map fst existing_content))"

definition other_mod_display_name :: "installed_content \<Rightarrow> string \<Rightarrow> string" where
  "other_mod_display_name existing_content n =
     (case map_of existing_content n of
        None \<Rightarrow> n
      | Some entry \<Rightarrow> (case map_of entry ''display_name'' of None \<Rightarrow> n | Some d \<Rightarrow> d))"

definition check_reinstallability ::
  "Mod \<Rightarrow> installed_content \<Rightarrow> descriptions
     \<Rightarrow> pyerror + (bool \<times> bool \<times> reinstall_warning \<times> installed_entry option)" where
  "check_reinstallability self existing_content existing_content_descriptions =
     (let found = map_of existing_content (name self);
          previous_install =
            (if name self = ''community_remaster'' \<and> found = None
             then map_of existing_content ''community_patch'' else found)
      in case previous_install of
           None \<Rightarrow> Inr (False, True, No_warning, None)
         | Some previous \<Rightarrow>
             if existing_other_mods self existing_content \<noteq> []
             then Inr (True, False,
                       Cant_reinstall_over_other_mods
                         (mset (map (other_mod_display_name existing_content)
                                  (remdups (existing_other_mods self existing_content)))),
                       previous_install)
             else
               (case getitem previous ''version'' of
                  Inl e \<Rightarrow> Inl e
                | Inr installed_version \<Rightarrow>
                   (case Version_eq (Version installed_version) (Version (version self)) of
                      Inl e \<Rightarrow> Inl e
                    | Inr versions_equal \<Rightarrow>
                    if versions_equal
                    then
                      (case getitem previous ''build'' of
                         Inl e \<Rightarrow> Inl e
                       | Inr installed_build \<Rightarrow>
                           if build self = installed_build
                           then Inr (True, True,
                                     if truthy (optional_content self)
                                     then Complex_safe_reinstall else Safe_reinstall,
                                     previous_install)
                           else if str_gt (build self) installed_build
                           then Inr (True, True,
                                     if truthy (optional_content self)
                                     then Complex_unsafe_reinstall else Unsafe_reinstall,
                                     previous_install)
                           else Inr (True, False, Cant_reinstall_over_newer_build,
                                     previous_install))
                    else Inr (True, False, Cant_reinstall_over_other_version,
                              previous_install))))"

section \<open>\<open>Mod.check_incompatible\<close> and \<open>Mod.check_incompatibles\<close>\<close>

text \<open>The body of the loop over \<open>incomp_versions\<close> for one constraint string: the value
  that the loop assigns to \<open>version_incomp\<close>.\<close>

definition incompatible_constraint :: "string \<Rightarrow> string \<Rightarrow> pyerror + bool" where
  "incompatible_constraint installed_version constraint =
     (let compare_op = parse_compare_operation constraint;
          parsed_existing_ver = Version installed_version;
          parsed_incompat_ver = Version (strip_signs constraint)
      in case compare_operation compare_op parsed_existing_ver parsed_incompat_ver of
           Inl e \<Rightarrow> Inl e
         | Inr r \<Rightarrow>
             Inr (if compare_op = Eq \<and> identifier' parsed_incompat_ver \<noteq> []
                     \<and> identifier' parsed_existing_ver \<noteq> identifier' parsed_incompat_ver
                  then True else r))"

fun incomp_versions_loop ::
  "string \<Rightarrow> string list \<Rightarrow> bool \<times> compare_op list \<Rightarrow> pyerror + (bool \<times> compare_op list)" where
  "incomp_versions_loop installed_version [] state = Inr state"
| "incomp_versions_loop installed_version (constraint # rest) (version_incomp, compare_ops) =
     (case incompatible_constraint installed_version constraint of
        Inl e \<Rightarrow> Inl e
      | Inr r \<Rightarrow>
          incomp_versions_loop installed_version rest
            (r, set_add (parse_compare_operation constraint) compare_ops))"

text \<open>What a call of \<open>check_incompatible\<close> leaves: the returned pair, the values of
  \<open>self.incompatibles_style\<close> and of \<open>incomp["name_label"]\<close> after the call, and the two
  local verdicts. The source returns the empty string in place of an empty list of messages
  when no alternative is installed; both are the empty list here.\<close>

record incompatible_result =
  incompatible_with_game_copy :: bool
  incomp_error_msg :: "msg list"
  version_incomp :: bool
  optional_content_incomp :: bool
  incomp_style_after :: style
  incomp_name_label :: "string list"

definition check_incompatible ::
  "(compare_op list \<Rightarrow> compare_op list) \<Rightarrow> Mod \<Rightarrow> prereq \<Rightarrow> installed_content
     \<Rightarrow> descriptions \<Rightarrow> pyerror + incompatible_result" where
  "check_incompatible set_order self incomp existing_content existing_content_descriptions =
     (let incomp_mod_name = required_mod (prereq_name incomp) existing_content;
          only_technical = only_technical_name_available existing_content (prereq_name incomp)
      in case name_label_loop existing_content (prereq_name incomp) of
           Inl e \<Rightarrow> Inl e
         | Inr labels \<Rightarrow>
       (case incomp_mod_name of
          None \<Rightarrow>
            Inr \<lparr> incompatible_with_game_copy = False, incomp_error_msg = [],
                  version_incomp = False, optional_content_incomp = False,
                  incomp_style_after = incompatibles_style self, incomp_name_label = labels \<rparr>
        | Some found \<Rightarrow>
       (case (if truthy (prereq_versions incomp)
              then (case get_installed existing_content incomp_mod_name of
                      Inl e \<Rightarrow> Inl e
                    | Inr existing_mod \<Rightarrow>
                        (case getitem existing_mod ''version'' of
                           Inl e \<Rightarrow> Inl e
                         | Inr installed_version \<Rightarrow>
                             incomp_versions_loop installed_version
                               (the_list (prereq_versions incomp)) (False, [])))
              else Inr (True, [])) of
          Inl e \<Rightarrow> Inl e
        | Inr (version_bad, compare_ops) \<Rightarrow>
       (let new_style = (if truthy (prereq_versions incomp)
                         then derive_style (set_order compare_ops)
                         else incompatibles_style self);
            optional_bad =
               (if truthy (prereq_optional_content incomp)
                then list_ex (\<lambda>option. map_of (the_list (map_of existing_content found)) option \<noteq> None
                                     \<and> map_of (the_list (map_of existing_content found)) option
                                         \<noteq> Some ''skip'')
                       (the_list (prereq_optional_content incomp))
                else True);
            bad = (version_bad \<and> optional_bad);
            result = \<lparr> incompatible_with_game_copy = bad,
                       incomp_error_msg =
                         (if bad
                          then [Found_incompatible only_technical labels
                                  (if truthy (prereq_versions incomp)
                                   then the_list (prereq_versions incomp) else [])
                                  (if truthy (prereq_optional_content incomp)
                                   then the_list (prereq_optional_content incomp) else []),
                                Version_available (map_of existing_content_descriptions found)]
                          else []),
                       version_incomp = version_bad, optional_content_incomp = optional_bad,
                       incomp_style_after = new_style, incomp_name_label = labels \<rparr>
        in if bad \<and> map_of existing_content_descriptions found = None
           then Inl NotImplementedError else Inr result))))"

type_synonym incompatibles_state = "bool \<times> msg list \<times> Mod \<times> prereq list"

fun incompatibles_loop ::
  "(compare_op list \<Rightarrow> compare_op list) \<Rightarrow> installed_content \<Rightarrow> descriptions
     \<Rightarrow> prereq list \<Rightarrow> incompatibles_state \<Rightarrow> pyerror + incompatibles_state" where
  "incompatibles_loop set_order existing_content descs [] state = Inr state"
| "incompatibles_loop set_order existing_content descs (incomp # rest) state =
     (case state of (compatible, messages, self, passed) \<Rightarrow>
        (case check_incompatible set_order self incomp existing_content descs of
           Inl e \<Rightarrow> Inl e
         | Inr r \<Rightarrow>
             (let labelled = incomp\<lparr>prereq_name_label := Some (incomp_name_label r)\<rparr>
              in incompatibles_loop set_order existing_content descs rest
                   (compatible \<and> \<not> incompatible_with_game_copy r,
                    messages @ incomp_error_msg r,
                    self\<lparr>incompatibles_style := incomp_style_after r,
                         individual_incomp_status :=
                           individual_incomp_status self
                           @ [(labelled, \<not> incompatible_with_game_copy r, incomp_error_msg r)]\<rparr>,
                    passed @ [labelled]))))"

definition check_incompatibles ::
  "(compare_op list \<Rightarrow> compare_op list) \<Rightarrow> Mod \<Rightarrow> installed_content \<Rightarrow> descriptions
     \<Rightarrow> pyerror + (bool \<times> msg list \<times> Mod)" where
  "check_incompatibles set_order self existing_content existing_content_descriptions =
     (case incompatibles_loop set_order existing_content existing_content_descriptions
             (incompatible self) (True, [], self\<lparr>individual_incomp_status := []\<rparr>, []) of
        Inl e \<Rightarrow> Inl e
      | Inr (compatible, messages, self', passed) \<Rightarrow>
          Inr (compatible,
               if messages \<noteq> [] then messages @ [Check_for_a_new_version] else messages,
               self'\<lparr>incompatible := passed\<rparr>))"

section \<open>\<open>Mod.install\<close>\<close>

text \<open>
  \<open>self.options_dict\<close> maps the name of an option to the option; \<open>Mod.__init__\<close> fills it
  in the order of \<open>optional_content\<close>, so a later option of the same name replaces an
  earlier one. The list is reversed for \<open>map_of\<close> to find the last one.
\<close>

definition options_dict :: "Mod \<Rightarrow> (string \<times> option_content) list" where
  "options_dict self = map (\<lambda>option. (option_name option, option)) (rev (the_list (optional_content self)))"

text \<open>
  The loop over the keys of \<open>install_settings\<close>, which collects \<open>mod_files\<close>. The selection
  is the association list of the dictionary's items, in its order, and its values are
  strings. The parameter \<open>console\<close> of \<open>install\<close> only switches printing and is left out.
\<close>

fun install_loop ::
  "Mod \<Rightarrow> (string \<times> string) list \<Rightarrow> string list \<Rightarrow> path list \<Rightarrow> pyerror + path list" where
  "install_loop self install_settings [] mod_files = Inr mod_files"
| "install_loop self install_settings (install_setting # rest) mod_files =
     (if install_setting = ''base'' then
        (case map_of install_settings ''base'' of
           None \<Rightarrow> Inl KeyError
         | Some install_base \<Rightarrow>
             if optional_content self \<noteq> None
                \<and> list_ex (\<lambda>option. map_of install_settings (option_name option) = None)
                      (the_list (optional_content self))
             then Inl KeyError
             else install_loop self install_settings rest
                    (mod_files @ [distibution_dir self @ [''data'']]))
      else
        (case getitem (options_dict self) install_setting of
           Inl e \<Rightarrow> Inl e
         | Inr wip_setting \<Rightarrow>
             (case getitem install_settings install_setting of
                Inl e \<Rightarrow> Inl e
              | Inr installation_prompt_result \<Rightarrow>
                  (let base_work_path = distibution_dir self @ [option_name wip_setting, ''data'']
                   in if installation_prompt_result = ''yes''
                      then install_loop self install_settings rest (mod_files @ [base_work_path])
                      else if installation_prompt_result = ''skip''
                      then install_loop self install_settings rest mod_files
                      else install_loop self install_settings rest
                             (mod_files @ [base_work_path,
                                distibution_dir self
                                @ [option_name wip_setting, installation_prompt_result]])))))"

text \<open>
  The body of the \<open>try\<close> statement. \<open>copy_from_to\<close> is a function of another module: it is a
  parameter, which answers \<open>None\<close> when it returns and the exception when it raises.
\<close>

definition install_try ::
  "(compare_op list \<Rightarrow> compare_op list) \<Rightarrow> (path list \<Rightarrow> path \<Rightarrow> pyerror option) \<Rightarrow> Mod
     \<Rightarrow> path \<Rightarrow> (string \<times> string) list \<Rightarrow> installed_content \<Rightarrow> descriptions
     \<Rightarrow> pyerror + (bool \<times> msg list)" where
  "install_try set_order copy_from_to self game_data_path install_settings existing_content
       existing_content_descriptions =
     (case check_requirements set_order self existing_content existing_content_descriptions [] of
        Inl e \<Rightarrow> Inl e
      | Inr (requirements_met, error_msgs, self') \<Rightarrow>
          if requirements_met
          then (case install_loop self' install_settings (map fst install_settings) [] of
                  Inl e \<Rightarrow> Inl e
                | Inr mod_files \<Rightarrow>
                    (case copy_from_to mod_files game_data_path of
                       Some e \<Rightarrow> Inl e
                     | None \<Rightarrow> Inr (True, [])))
          else Inr (False, error_msgs))"

text \<open>
  \<open>install\<close>: the handler \<open>except Exception\<close> turns an exception of class \<open>Exception\<close>
  that the body raises into the result \<open>(False, [])\<close>; an exception of another class
  passes the handler and leaves \<open>install\<close>.
\<close>

definition install ::
  "(compare_op list \<Rightarrow> compare_op list) \<Rightarrow> (path list \<Rightarrow> path \<Rightarrow> pyerror option) \<Rightarrow> Mod
     \<Rightarrow> path \<Rightarrow> (string \<times> string) list \<Rightarrow> installed_content \<Rightarrow> descriptions
     \<Rightarrow> pyerror + (bool \<times> msg list)" where
  "install set_order copy_from_to self game_data_path install_settings existing_content
       existing_content_descriptions =
     (case install_try set_order copy_from_to self game_data_path install_settings
             existing_content existing_content_descriptions of
        Inl ex \<Rightarrow> if is_Exception ex then Inr (False, []) else Inl ex
      | Inr result \<Rightarrow> Inr result)"

section \<open>Scenarios\<close>

text \<open>
  The mod \<open>alpha\<close> of the scenarios S1 to S6, with a given build and given prerequisites, a
  prerequisite on the mod \<open>beta\<close> with a list of version constraints, and a game copy in
  which one mod is installed with a given version and build.
\<close>

definition scenario_alpha :: "string \<Rightarrow> prereq list \<Rightarrow> Mod" where
  "scenario_alpha b ps =
     \<lparr> name = ''alpha'', display_name = ''Alpha'', version = ''1.0.0'', build = b,
       prerequisites = ps, incompatible = [], patcher_version_requirement = [''>=1.10''],
       distibution_dir = [''mods'', ''alpha''], no_base_content = False, optional_content = None,
       requirements_style = Mixed_style, incompatibles_style = Mixed_style,
       individual_require_status = [], individual_incomp_status = [] \<rparr>"

definition requires_beta :: "string list \<Rightarrow> prereq" where
  "requires_beta vs =
     \<lparr> prereq_name = [''beta''], prereq_versions = Some vs, prereq_optional_content = None,
       prereq_name_label = None \<rparr>"

definition installed_mod :: "string \<Rightarrow> string \<Rightarrow> string \<Rightarrow> installed_content" where
  "installed_mod n v b = [(n, [(''version'', v), (''build'', b), (''display_name'', n)])]"

section \<open>Notions used in the statements\<close>

text \<open>
  An enumeration of a set of operators: it lists the elements of the set, each once. Every
  order in which \<open>list(compare_ops)\<close> can enumerate the set is of this kind.
\<close>

definition admissible_order :: "(compare_op list \<Rightarrow> compare_op list) \<Rightarrow> bool" where
  "admissible_order set_order =
     (\<forall>ops. distinct ops \<longrightarrow> distinct (set_order ops) \<and> set (set_order ops) = set ops)"

text \<open>
  The relation between the set of operators that a constraint list uses and its style:
  \<open>strict\<close> exactly for the set \<open>{=}\<close>; \<open>range\<close> whenever the set is a lower bound
  (\<open>>=\<close> or \<open>>\<close>) together with \<open><\<close>; and \<open>range\<close> only for a set of one lower and one
  upper bound.
\<close>

definition style_agrees :: "compare_op set \<Rightarrow> style \<Rightarrow> bool" where
  "style_agrees used st =
     ((st = Strict_style \<longleftrightarrow> used = {Eq})
      \<and> ((\<exists>l \<in> {Ge, Gt}. used = {l, Lt}) \<longrightarrow> st = Range_style)
      \<and> (st = Range_style \<longrightarrow> (\<exists>l \<in> {Ge, Gt}. \<exists>u \<in> {Le, Lt}. used = {l, u})))"

text \<open>A prerequisite whose first alternative name is \<open>community_patch\<close>.\<close>

definition first_is_compatch :: "prereq \<Rightarrow> bool" where
  "first_is_compatch prereq = (take 1 (prereq_name prereq) = [''community_patch''])"

text \<open>
  What a caller can observe of \<open>check_requirements\<close>: the exception, or the returned pair
  together with \<open>requirements_style\<close> and \<open>individual_require_status\<close> of the mod.
\<close>

definition requirements_outcome ::
  "pyerror + (bool \<times> msg list \<times> Mod)
   \<Rightarrow> pyerror + (bool \<times> msg list \<times> style \<times> (prereq \<times> bool \<times> msg list) list)" where
  "requirements_outcome result =
     (case result of
        Inl e \<Rightarrow> Inl e
      | Inr (requirements_met, messages, self) \<Rightarrow>
          Inr (requirements_met, messages, requirements_style self,
               individual_require_status self))"

text \<open>The state of the loop over the prerequisites, without the entries passed and without
  the list of prerequisites of the mod.\<close>

definition loop_view :: "pyerror + requirements_state \<Rightarrow> pyerror + (bool \<times> msg list \<times> Mod)" where
  "loop_view result =
     (case result of
        Inl e \<Rightarrow> Inl e
      | Inr (requirements_met, messages, self, passed) \<Rightarrow>
          Inr (requirements_met, messages, self\<lparr>prerequisites := []\<rparr>))"

text \<open>
  The directories that one item of the selection adds to the copy plan: the key \<open>base\<close>
  adds the base data directory, whatever it is mapped to; an option mapped to \<open>yes\<close> adds its
  data directory, one mapped to \<open>skip\<close> adds nothing, and one mapped to the name of a
  setting adds its data directory and then the directory of the setting.
\<close>

definition copy_jobs :: "Mod \<Rightarrow> string \<times> string \<Rightarrow> path list" where
  "copy_jobs self item =
     (case item of (key, choice) \<Rightarrow>
        if key = ''base'' then [distibution_dir self @ [''data'']]
        else if choice = ''yes'' then [distibution_dir self @ [key, ''data'']]
        else if choice = ''skip'' then []
        else [distibution_dir self @ [key, ''data''], distibution_dir self @ [key, choice]])"

text \<open>Further scenarios: the mod \<open>alpha\<close> without base content and with the options
  \<open>roads\<close> and \<open>hud\<close>; the mod \<open>community_remaster\<close> with given prerequisites; a
  prerequisite on \<open>community_patch\<close>.\<close>

definition scenario_options :: Mod where
  "scenario_options =
     (scenario_alpha ''7'' [])\<lparr> no_base_content := True,
        optional_content := Some [\<lparr>option_name = ''roads''\<rparr>, \<lparr>option_name = ''hud''\<rparr>] \<rparr>"

definition scenario_comrem :: "prereq list \<Rightarrow> Mod" where
  "scenario_comrem ps = (scenario_alpha ''7'' ps)\<lparr> name := ''community_remaster'' \<rparr>"

definition requires_compatch :: prereq where
  "requires_compatch =
     \<lparr> prereq_name = [''community_patch''], prereq_versions = None,
       prereq_optional_content = None, prereq_name_label = None \<rparr>"

section \<open>Manifests as YAML values\<close>

text \<open>
  \<open>validate_install_config\<close> receives what the YAML reader made of a manifest: strings,
  integers, floats, booleans, \<open>None\<close>, lists and dictionaries (with string keys). A float is
  the rational number it stands for, or \<open>None\<close> for \<open>nan\<close> and the infinities.
  \<open>d.get(k)\<close> answers \<open>None\<close> for a missing key, so a key mapped to \<open>None\<close> and a missing
  key are the same to the code.
\<close>

datatype yaml =
    YNull
  | YStr string
  | YInt int
  | YFloat "rat option"
  | YBool bool
  | YList "yaml list"
  | YDict "(string \<times> yaml) list"

definition dict_get :: "(string \<times> yaml) list \<Rightarrow> string \<Rightarrow> yaml" where
  "dict_get d k = (case map_of d k of None \<Rightarrow> YNull | Some v \<Rightarrow> v)"

text \<open>\<open>bool(v)\<close>.\<close>

fun py_bool :: "yaml \<Rightarrow> bool" where
  "py_bool YNull = False"
| "py_bool (YStr s) = (s \<noteq> [])"
| "py_bool (YInt i) = (i \<noteq> 0)"
| "py_bool (YFloat f) = (f \<noteq> Some 0)"
| "py_bool (YBool b) = b"
| "py_bool (YList xs) = (xs \<noteq> [])"
| "py_bool (YDict d) = (d \<noteq> [])"

text \<open>The types that the schemas name, \<open>isinstance\<close> for them (a boolean is an instance of
  \<open>int\<close>), and the entries of a list of types: a plain type, or a generic \<open>list[...]\<close> with
  the types of its argument (\<open>list[str | float | int]\<close> has three).\<close>

datatype pytype = Tstr | Tint | Tfloat | Tbool | Tlist | Tdict

fun isinstance :: "yaml \<Rightarrow> pytype \<Rightarrow> bool" where
  "isinstance (YStr s) t = (t = Tstr)"
| "isinstance (YInt i) t = (t = Tint)"
| "isinstance (YFloat f) t = (t = Tfloat)"
| "isinstance (YBool b) t = (t = Tbool \<or> t = Tint)"
| "isinstance (YList xs) t = (t = Tlist)"
| "isinstance (YDict d) t = (t = Tdict)"
| "isinstance YNull t = False"

datatype type_entry = Plain pytype | List_of "pytype list"

fun is_generic :: "type_entry \<Rightarrow> bool" where
  "is_generic (Plain t) = False"
| "is_generic (List_of args) = True"

fun isinstance_plain :: "yaml \<Rightarrow> type_entry \<Rightarrow> bool" where
  "isinstance_plain v (Plain t) = isinstance v t"
| "isinstance_plain v (List_of args) = False"

section \<open>\<open>Mod.validate_dict\<close>, \<open>Mod.validate_dict_constrained\<close>, \<open>Mod.validate_list\<close>\<close>

text \<open>
  A scheme lists, for each field, the possible types and whether the field is required.
  When one of the types is generic, \<open>validate_dict\<close> looks at the generic types only: a
  value that is a list must have all its elements of the argument types, and a value that
  is no list passes.
\<close>

type_synonym scheme = "(string \<times> type_entry list \<times> bool) list"

fun valid_generic :: "yaml \<Rightarrow> type_entry list \<Rightarrow> bool" where
  "valid_generic v [] = True"
| "valid_generic v (Plain t # rest) = valid_generic v rest"
| "valid_generic v (List_of args # rest) =
     (case v of
        YList xs \<Rightarrow>
          if list_all (\<lambda>value_internal. list_ex (isinstance value_internal) args) xs
          then valid_generic v rest else False
      | _ \<Rightarrow> valid_generic v rest)"

definition valid_field :: "(string \<times> yaml) list \<Rightarrow> string \<times> type_entry list \<times> bool \<Rightarrow> bool" where
  "valid_field validating_dict entry =
     (case entry of (field, types, required) \<Rightarrow>
        (let v = dict_get validating_dict field
         in if required \<and> v = YNull then False
            else if required \<or> v \<noteq> YNull then
              (if list_ex is_generic types then valid_generic v types
               else list_ex (isinstance_plain v) types)
            else True))"

definition validate_dict :: "yaml \<Rightarrow> scheme \<Rightarrow> bool" where
  "validate_dict validating_dict scheme =
     (case validating_dict of
        YDict d \<Rightarrow> list_all (valid_field d) scheme
      | _ \<Rightarrow> False)"

text \<open>
  A constrained scheme has plain types and, for a numeric field, the bounds \<open>[min, max]\<close>.
  With the table of the source the value that reaches \<open>float(value)\<close> or \<open>int(value)\<close> is
  a float, an integer or a boolean, so the conversion does not raise; \<open>numeric_value\<close> is
  its result. A value that is no dictionary has no \<open>get\<close>.
\<close>

type_synonym constrained_scheme = "(string \<times> pytype list \<times> bool \<times> (rat \<times> rat) option) list"

fun numeric_value :: "yaml \<Rightarrow> rat option" where
  "numeric_value (YFloat f) = f"
| "numeric_value (YInt i) = Some (of_int i)"
| "numeric_value (YBool b) = Some (if b then 1 else 0)"
| "numeric_value v = None"

definition in_bounds :: "yaml \<Rightarrow> (rat \<times> rat) option \<Rightarrow> bool" where
  "in_bounds v bounds =
     (case bounds of
        None \<Rightarrow> False
      | Some (min_req, max_req) \<Rightarrow>
          (case numeric_value v of None \<Rightarrow> False | Some x \<Rightarrow> min_req \<le> x \<and> x \<le> max_req))"

fun constrained_loop :: "(string \<times> yaml) list \<Rightarrow> constrained_scheme \<Rightarrow> pyerror + bool" where
  "constrained_loop d [] = Inr True"
| "constrained_loop d ((field, types, required, bounds) # rest) =
     (let v = dict_get d field;
          numeric = (Tfloat \<in> set types \<or> Tint \<in> set types)
      in if numeric \<and> bounds = None then Inl IndexError
         else if required \<and> v = YNull then Inr False
         else if required \<or> v \<noteq> YNull then
           (if list_ex (isinstance v) types
            then (if numeric \<and> \<not> in_bounds v bounds then Inr False
                  else constrained_loop d rest)
            else Inr False)
         else constrained_loop d rest)"

definition validate_dict_constrained :: "yaml \<Rightarrow> constrained_scheme \<Rightarrow> pyerror + bool" where
  "validate_dict_constrained validating_dict scheme =
     (case validating_dict of
        YDict d \<Rightarrow> constrained_loop d scheme
      | _ \<Rightarrow> (if scheme = [] then Inr True else Inl AttributeError))"

text \<open>Iterating over a value: the elements of a list, the characters of a string, the
  keys of a dictionary; other values are not iterable.\<close>

fun py_iter :: "yaml \<Rightarrow> pyerror + yaml list" where
  "py_iter (YList xs) = Inr xs"
| "py_iter (YStr s) = Inr (map (\<lambda>c. YStr [c]) s)"
| "py_iter (YDict d) = Inr (map (\<lambda>kv. YStr (fst kv)) d)"
| "py_iter v = Inl TypeError"

fun is_dict :: "yaml \<Rightarrow> bool" where
  "is_dict (YDict d) = True"
| "is_dict v = False"

definition validate_list :: "yaml \<Rightarrow> scheme \<Rightarrow> pyerror + bool" where
  "validate_list validating_list scheme =
     (case py_iter validating_list of
        Inl e \<Rightarrow> Inl e
      | Inr elements \<Rightarrow>
          Inr (list_all (\<lambda>element. validate_dict element scheme) (filter is_dict elements)))"

section \<open>\<open>Mod.validate_install_config\<close>\<close>

text \<open>The schemas of the source, with its spelling of their names.\<close>

definition schema_fieds_top :: scheme where
  "schema_fieds_top =
     [(''name'', [Plain Tstr], True),
      (''display_name'', [Plain Tstr], True),
      (''version'', [Plain Tstr, Plain Tint, Plain Tfloat], True),
      (''build'', [Plain Tstr], True),
      (''description'', [Plain Tstr], True),
      (''authors'', [Plain Tstr], True),
      (''prerequisites'', [Plain Tlist], True),
      (''incompatible'', [Plain Tlist], False),
      (''patcher_version_requirement'',
         [Plain Tstr, Plain Tfloat, Plain Tint, List_of [Tstr, Tfloat, Tint]], True),
      (''release_date'', [Plain Tstr], False),
      (''language'', [Plain Tstr], True),
      (''translations'', [List_of [Tstr]], False),
      (''link'', [Plain Tstr], False),
      (''tags'', [List_of [Tstr]], False),
      (''logo'', [Plain Tstr], False),
      (''install_banner'', [Plain Tstr], False),
      (''screenshots'', [Plain Tlist], False),
      (''change_log'', [Plain Tstr], False),
      (''other_info'', [Plain Tstr], False),
      (''patcher_options'', [Plain Tdict], False),
      (''optional_content'', [Plain Tlist], False),
      (''no_base_content'', [Plain Tbool, Plain Tstr], False)]"

definition schema_prereqs :: scheme where
  "schema_prereqs =
     [(''name'', [Plain Tstr, List_of [Tstr]], True),
      (''versions'', [List_of [Tstr, Tint, Tfloat]], False),
      (''optional_content'', [List_of [Tstr]], False)]"

definition schema_patcher_options :: constrained_scheme where
  "schema_patcher_options =
     [(''gravity'', [Tfloat], False, Some (- 100, - 1)),
      (''skins_in_shop'', [Tint], False, Some (8, 32)),
      (''blast_damage_friendly_fire'', [Tbool, Tstr], False, None),
      (''game_font'', [Tstr], False, None)]"

definition schema_optional_content :: scheme where
  "schema_optional_content =
     [(''name'', [Plain Tstr], True),
      (''display_name'', [Plain Tstr], True),
      (''description'', [Plain Tstr], True),
      (''default_option'', [Plain Tstr], False),
      (''install_settings'', [Plain Tlist], False)]"

definition schema_install_settins :: scheme where
  "schema_install_settins =
     [(''name'', [Plain Tstr], True),
      (''description'', [Plain Tstr], True)]"

text \<open>
  \<open>"community_patch" in prereq_entry_checked\<close>, where \<open>prereq_entry_checked\<close> is the
  one-element list of the name when the name is a string and the name itself otherwise:
  membership in a list, a key of a dictionary, and \<open>TypeError\<close> for a value that is no
  container.
\<close>

fun compatch_in_names :: "yaml \<Rightarrow> pyerror + bool" where
  "compatch_in_names (YStr s) = Inr (s = ''community_patch'')"
| "compatch_in_names (YList xs) = Inr (YStr ''community_patch'' \<in> set xs)"
| "compatch_in_names (YDict d) = Inr (''community_patch'' \<in> set (map fst d))"
| "compatch_in_names v = Inl TypeError"

text \<open>\<open>bool(set(incompatible_entry_checked) & set(["community_patch"]))\<close>: building the set
  also raises \<open>TypeError\<close> for a list with an element that cannot be hashed (a list or a
  dictionary).\<close>

fun compatch_in_name_set :: "yaml \<Rightarrow> pyerror + bool" where
  "compatch_in_name_set (YStr s) = Inr (s = ''community_patch'')"
| "compatch_in_name_set (YList xs) =
     (if list_ex (\<lambda>x. case x of YList ys \<Rightarrow> True | YDict d \<Rightarrow> True | _ \<Rightarrow> False) xs
      then Inl TypeError else Inr (YStr ''community_patch'' \<in> set xs))"
| "compatch_in_name_set (YDict d) = Inr (''community_patch'' \<in> set (map fst d))"
| "compatch_in_name_set v = Inl TypeError"

text \<open>An entry is read with \<open>get\<close> only after \<open>validate_dict\<close> has accepted it, so it is a
  dictionary there.\<close>

fun entry_get :: "yaml \<Rightarrow> string \<Rightarrow> yaml" where
  "entry_get (YDict d) k = dict_get d k"
| "entry_get v k = YNull"

text \<open>
  The loop over \<open>prerequisites\<close>; its state is \<open>(validated, has_forbidden_prerequisites)\<close>.
\<close>

fun prerequisites_loop :: "yaml list \<Rightarrow> bool \<times> bool \<Rightarrow> pyerror + (bool \<times> bool)" where
  "prerequisites_loop [] state = Inr state"
| "prerequisites_loop (prereq_entry # rest) (valid, has_forbidden_prerequisites) =
     (if valid \<and> validate_dict prereq_entry schema_prereqs
      then (case compatch_in_names (entry_get prereq_entry ''name'') of
              Inl e \<Rightarrow> Inl e
            | Inr listed \<Rightarrow>
                prerequisites_loop rest
                  (True,
                   has_forbidden_prerequisites
                   \<or> (listed \<and> py_bool (entry_get prereq_entry ''optional_content'')
                        \<and> entry_get prereq_entry ''optional_content'' \<noteq> YNull)))
      else prerequisites_loop rest (False, has_forbidden_prerequisites))"

text \<open>The loop over \<open>incompatible\<close>; its state is
  \<open>(validated, has_forbidden_icompabilities)\<close>.\<close>

fun incompatibles_entries_loop :: "yaml list \<Rightarrow> bool \<times> bool \<Rightarrow> pyerror + (bool \<times> bool)" where
  "incompatibles_entries_loop [] state = Inr state"
| "incompatibles_entries_loop (incompatible_entry # rest) (valid, has_forbidden_icompabilities) =
     (if valid \<and> validate_dict incompatible_entry schema_prereqs
      then (case compatch_in_name_set (entry_get incompatible_entry ''name'') of
              Inl e \<Rightarrow> Inl e
            | Inr listed \<Rightarrow>
                incompatibles_entries_loop rest (True, has_forbidden_icompabilities \<or> listed))
      else incompatibles_entries_loop rest (False, has_forbidden_icompabilities))"

text \<open>
  The parts of \<open>validate_install_config\<close> that follow the validation of the top level, each
  as a function of the value of \<open>validated\<close> before it: the patcher options, the
  prerequisites, the incompatibles, the optional content and the directories.
\<close>

definition patcher_options_part :: "(string \<times> yaml) list \<Rightarrow> bool \<Rightarrow> pyerror + bool" where
  "patcher_options_part cfg valid =
     (if dict_get cfg ''patcher_options'' \<noteq> YNull
      then (case validate_dict_constrained (dict_get cfg ''patcher_options'')
                   schema_patcher_options of
              Inl e \<Rightarrow> Inl e
            | Inr ok \<Rightarrow> Inr (valid \<and> ok))
      else Inr valid)"

definition prerequisites_part :: "(string \<times> yaml) list \<Rightarrow> bool \<Rightarrow> pyerror + bool" where
  "prerequisites_part cfg valid =
     (if dict_get cfg ''prerequisites'' \<noteq> YNull
      then (case py_iter (dict_get cfg ''prerequisites'') of
              Inl e \<Rightarrow> Inl e
            | Inr entries \<Rightarrow>
                (case prerequisites_loop entries (valid, False) of
                   Inl e \<Rightarrow> Inl e
                 | Inr (valid', has_forbidden_prerequisites) \<Rightarrow>
                     Inr (valid' \<and> \<not> has_forbidden_prerequisites)))
      else Inr valid)"

definition incompatibles_part :: "(string \<times> yaml) list \<Rightarrow> bool \<Rightarrow> pyerror + bool" where
  "incompatibles_part cfg valid =
     (if dict_get cfg ''incompatible'' \<noteq> YNull
      then (case py_iter (dict_get cfg ''incompatible'') of
              Inl e \<Rightarrow> Inl e
            | Inr entries \<Rightarrow>
                (case incompatibles_entries_loop entries (valid, False) of
                   Inl e \<Rightarrow> Inl e
                 | Inr (valid', has_forbidden_icompabilities) \<Rightarrow>
                     Inr (valid' \<and> \<not> has_forbidden_icompabilities)))
      else Inr valid)"

fun py_len :: "yaml \<Rightarrow> pyerror + nat" where
  "py_len (YList xs) = Inr (length xs)"
| "py_len (YStr s) = Inr (length s)"
| "py_len (YDict d) = Inr (length d)"
| "py_len v = Inl TypeError"

text \<open>The loop over the options of \<open>optional_content\<close>; an option that is no dictionary
  has no \<open>get\<close>.\<close>

fun options_loop :: "yaml list \<Rightarrow> bool \<Rightarrow> pyerror + bool" where
  "options_loop [] valid = Inr valid"
| "options_loop (option # rest) valid =
     (case option of
        YDict od \<Rightarrow>
          (let v1 = (if dict_get od ''name''
                          \<in> set [YStr ''base'', YStr ''display_name'', YStr ''build'', YStr ''version'']
                     then False else valid);
               install_settings = dict_get od ''install_settings'';
               patcher_options_additional = dict_get od ''patcher_options''
           in case (if install_settings \<noteq> YNull
                    then (case py_len install_settings of
                            Inl e \<Rightarrow> Inl e
                          | Inr n \<Rightarrow>
                              (case validate_list install_settings schema_install_settins of
                                 Inl e \<Rightarrow> Inl e
                               | Inr ok \<Rightarrow> Inr (v1 \<and> n > 1 \<and> ok)))
                    else Inr v1) of
                Inl e \<Rightarrow> Inl e
              | Inr v2 \<Rightarrow>
                  (case (if patcher_options_additional \<noteq> YNull
                         then (case validate_dict_constrained patcher_options_additional
                                      schema_patcher_options of
                                 Inl e \<Rightarrow> Inl e
                               | Inr ok \<Rightarrow> Inr (v2 \<and> ok))
                         else Inr v2) of
                     Inl e \<Rightarrow> Inl e
                   | Inr v3 \<Rightarrow> options_loop rest v3))
      | _ \<Rightarrow> Inl AttributeError)"

definition optional_content_part :: "(string \<times> yaml) list \<Rightarrow> bool \<Rightarrow> pyerror + bool" where
  "optional_content_part cfg valid =
     (if dict_get cfg ''optional_content'' \<noteq> YNull
      then (case validate_list (dict_get cfg ''optional_content'') schema_optional_content of
              Inl e \<Rightarrow> Inl e
            | Inr ok \<Rightarrow>
                if valid \<and> ok
                then (case py_iter (dict_get cfg ''optional_content'') of
                        Inl e \<Rightarrow> Inl e
                      | Inr options \<Rightarrow> options_loop options True)
                else Inr False)
      else Inr valid)"

text \<open>
  The directories. \<open>os.path.join\<close> raises \<open>TypeError\<close> for a component that is no string.
  The file system is the parameter \<open>isdir\<close>: it tells whether the components, joined
  below \<open>mod_path\<close> (the grandparent of \<open>mod_config_path\<close>), name a directory.
\<close>

fun join_components :: "yaml list \<Rightarrow> pyerror + string list" where
  "join_components [] = Inr []"
| "join_components (YStr s # rest) =
     (case join_components rest of Inl e \<Rightarrow> Inl e | Inr ss \<Rightarrow> Inr (s # ss))"
| "join_components (v # rest) = Inl TypeError"

definition isdir_joined :: "(string list \<Rightarrow> bool) \<Rightarrow> yaml list \<Rightarrow> pyerror + bool" where
  "isdir_joined isdir components =
     (case join_components components of Inl e \<Rightarrow> Inl e | Inr p \<Rightarrow> Inr (isdir p))"

fun settings_dirs_loop ::
  "(string list \<Rightarrow> bool) \<Rightarrow> yaml \<Rightarrow> yaml \<Rightarrow> yaml list \<Rightarrow> bool \<Rightarrow> pyerror + bool" where
  "settings_dirs_loop isdir mod_identifier option_dir [] valid = Inr valid"
| "settings_dirs_loop isdir mod_identifier option_dir (setting # rest) valid =
     (case setting of
        YDict sd \<Rightarrow>
          (case isdir_joined isdir [mod_identifier, option_dir, dict_get sd ''name''] of
             Inl e \<Rightarrow> Inl e
           | Inr found \<Rightarrow>
               settings_dirs_loop isdir mod_identifier option_dir rest (valid \<and> found))
      | _ \<Rightarrow> Inl AttributeError)"

fun options_dirs_loop ::
  "(string list \<Rightarrow> bool) \<Rightarrow> yaml \<Rightarrow> yaml list \<Rightarrow> bool \<Rightarrow> pyerror + bool" where
  "options_dirs_loop isdir mod_identifier [] valid = Inr valid"
| "options_dirs_loop isdir mod_identifier (option # rest) valid =
     (case option of
        YDict od \<Rightarrow>
          (case isdir_joined isdir [mod_identifier, dict_get od ''name''] of
             Inl e \<Rightarrow> Inl e
           | Inr found \<Rightarrow>
               (case (if dict_get od ''install_settings'' \<noteq> YNull
                      then (case py_iter (dict_get od ''install_settings'') of
                              Inl e \<Rightarrow> Inl e
                            | Inr settings \<Rightarrow>
                                settings_dirs_loop isdir mod_identifier (dict_get od ''name'')
                                  settings (valid \<and> found))
                      else Inr (valid \<and> found)) of
                  Inl e \<Rightarrow> Inl e
                | Inr v2 \<Rightarrow> options_dirs_loop isdir mod_identifier rest v2))
      | _ \<Rightarrow> Inl AttributeError)"

definition data_part ::
  "(string list \<Rightarrow> bool) \<Rightarrow> (string \<times> yaml) list \<Rightarrow> bool \<Rightarrow> pyerror + bool" where
  "data_part isdir cfg valid =
     (let mod_identifier = (if dict_get cfg ''name'' = YStr ''community_remaster''
                            then YStr ''remaster'' else dict_get cfg ''name'')
      in case (if \<not> py_bool (dict_get cfg ''no_base_content'')
               then (case isdir_joined isdir [mod_identifier, YStr ''data''] of
                       Inl e \<Rightarrow> Inl e
                     | Inr validated_data_dir \<Rightarrow> Inr (valid \<and> validated_data_dir))
               else Inr valid) of
           Inl e \<Rightarrow> Inl e
         | Inr v1 \<Rightarrow>
             if dict_get cfg ''optional_content'' \<noteq> YNull
             then (case py_iter (dict_get cfg ''optional_content'') of
                     Inl e \<Rightarrow> Inl e
                   | Inr options \<Rightarrow> options_dirs_loop isdir mod_identifier options v1)
             else Inr v1)"

text \<open>\<open>validate_install_config\<close>. The result is \<open>Inr\<close> of the returned boolean, or \<open>Inl\<close>
  of the exception that the function lets escape.\<close>

definition validate_install_config ::
  "(string list \<Rightarrow> bool) \<Rightarrow> yaml \<Rightarrow> bool \<Rightarrow> pyerror + bool" where
  "validate_install_config isdir install_config skip_data_validation =
     (case install_config of
        YDict cfg \<Rightarrow>
          if validate_dict install_config schema_fieds_top
          then (case patcher_options_part cfg True of
                  Inl e \<Rightarrow> Inl e
                | Inr v1 \<Rightarrow>
              (case prerequisites_part cfg v1 of
                  Inl e \<Rightarrow> Inl e
                | Inr v2 \<Rightarrow>
              (case incompatibles_part cfg v2 of
                  Inl e \<Rightarrow> Inl e
                | Inr v3 \<Rightarrow>
              (case optional_content_part cfg v3 of
                  Inl e \<Rightarrow> Inl e
                | Inr v4 \<Rightarrow>
                  if skip_data_validation then Inr v4 else data_part isdir cfg v4))))
          else Inr False
      | _ \<Rightarrow> Inr False)"

text \<open>
  A manifest for the statements: the required fields of the top level, with given
  prerequisites, incompatibles and optional content; and an entry of \<open>prerequisites\<close> or
  \<open>incompatible\<close> with a name and required options.
\<close>

definition manifest :: "yaml list \<Rightarrow> yaml \<Rightarrow> yaml \<Rightarrow> yaml" where
  "manifest prereq_entries incompatible_entries options =
     YDict [(''name'', YStr ''alpha''), (''display_name'', YStr ''Alpha''),
            (''version'', YStr ''1.0.0''), (''build'', YStr ''7''),
            (''description'', YStr ''A mod''), (''authors'', YStr ''A''),
            (''prerequisites'', YList prereq_entries),
            (''incompatible'', incompatible_entries),
            (''patcher_version_requirement'', YStr ''>=1.10''),
            (''language'', YStr ''eng''),
            (''optional_content'', options)]"

definition manifest_entry :: "yaml \<Rightarrow> yaml \<Rightarrow> yaml" where
  "manifest_entry entry_name entry_options =
     YDict [(''name'', entry_name), (''optional_content'', entry_options)]"

text \<open>An entry that lists \<open>community_patch\<close> among its names and has a non-empty
  \<open>optional_content\<close>, and an entry that lists \<open>community_patch\<close> among its names.\<close>

definition forbidden_prerequisite :: "yaml \<Rightarrow> bool" where
  "forbidden_prerequisite entry =
     (compatch_in_names (entry_get entry ''name'') = Inr True
      \<and> py_bool (entry_get entry ''optional_content''))"

definition forbidden_incompatible :: "yaml \<Rightarrow> bool" where
  "forbidden_incompatible entry = (compatch_in_name_set (entry_get entry ''name'') = Inr True)"

text \<open>Names as the schema means them: a string or a list of strings.\<close>

fun is_str :: "yaml \<Rightarrow> bool" where
  "is_str (YStr s) = True"
| "is_str v = False"

fun well_typed_name :: "yaml \<Rightarrow> bool" where
  "well_typed_name (YStr s) = True"
| "well_typed_name (YList xs) = list_all is_str xs"
| "well_typed_name v = False"

definition well_typed_names :: "yaml list \<Rightarrow> bool" where
  "well_typed_names entries = list_all (\<lambda>entry. well_typed_name (entry_get entry ''name'')
                                              \<or> \<not> validate_dict entry schema_prereqs) entries"

section \<open>Properties of \<open>Version\<close>\<close>

lemmas version_eval =
  Version_def str_find_def is_numeric_def isnumeric_def isnumeric_char_def isdecimal_char_def
  py_int_def int_max_str_digits_def int_tuple_def Version_eq_def Version_ne_def
  Version_lt_def Version_le_def Version_gt_def Version_ge_def tuple_lt_def

text \<open>
  \<open>==\<close> on versions never reads the identifier: its outcome, a truth value or the
  \<open>ValueError\<close> of \<open>int()\<close>, is that of the versions without their identifiers.
\<close>

lemma int_tuple_identifier:
  "int_tuple (v\<lparr>identifier' := i\<rparr>) = int_tuple v"
  by (simp add: int_tuple_def split: sum.splits)

lemma is_numeric_identifier:
  "is_numeric (v\<lparr>identifier' := i\<rparr>) = is_numeric v"
  by (simp add: is_numeric_def)

lemma Version_eq_identifier_independent:
  "Version_eq (a\<lparr>identifier' := i\<rparr>) (b\<lparr>identifier' := j\<rparr>) = Version_eq a b"
  by (simp add: Version_eq_def int_tuple_identifier is_numeric_identifier split: sum.splits)

text \<open>
  A component that \<open>isnumeric\<close> accepts and \<open>int()\<close> refuses: the superscript two. The
  version is numeric, and \<open>==\<close> raises \<open>ValueError\<close>.
\<close>

lemma Version_eq_superscript_raises:
  "is_numeric (Version [CHR 0xB2])
   \<and> Version_eq (Version [CHR 0xB2]) (Version [CHR 0xB2]) = Inl ValueError"
  by (simp add: version_eval)

text \<open>
  C3 (as amended). Two version strings parse to equal numeric components when the three
  components of both are numeric and \<open>int()\<close> turns them into the same three integers
  (as for \<open>"01.2.3"\<close> and \<open>"1.2.3"\<close>). Then \<open>==\<close> is true and \<open>!=\<close> is false, whatever
  the identifiers are: those that the strings carry, and any others put in their place. So
  \<open>parse("1.2.3") == parse("1.2.3")\<close>, and also \<open>parse("1.2.3") == parse("1.2.3-beta")\<close>.
\<close>

theorem Version_eq_ignores_identifier:
  assumes "is_numeric (Version s)" and "is_numeric (Version t)"
    and "int_tuple (Version s) = Inr n" and "int_tuple (Version t) = Inr n"
  shows "Version_eq (Version s) (Version t) = Inr True
         \<and> Version_ne (Version s) (Version t) = Inr False
         \<and> Version_eq ((Version s)\<lparr>identifier' := i\<rparr>) ((Version t)\<lparr>identifier' := j\<rparr>)
             = Inr True"
  using assms
  by (simp add: Version_eq_def Version_ne_def int_tuple_identifier is_numeric_identifier)

theorem Version_eq_ignores_identifier_witness:
  "is_numeric (Version ''01.2.3'') \<and> is_numeric (Version ''1.2.3-beta'')
   \<and> int_tuple (Version ''01.2.3'') = Inr (1, 2, 3)
   \<and> int_tuple (Version ''1.2.3-beta'') = Inr (1, 2, 3)
   \<and> identifier' (Version ''01.2.3'') = []
   \<and> identifier' (Version ''1.2.3-beta'') = ''beta''
   \<and> Version_eq (Version ''01.2.3'') (Version ''1.2.3-beta'') = Inr True
   \<and> Version_eq (Version ''1.2.3'') (Version ''1.2.3'') = Inr True
   \<and> Version_eq (Version ''1.2.3'') (Version ''1.2.3-beta'') = Inr True"
proof -
  have n: "is_numeric (Version ''01.2.3'')" "is_numeric (Version ''1.2.3-beta'')"
          "is_numeric (Version ''1.2.3'')"
    by (simp_all add: version_eval)
  have c: "int_tuple (Version ''01.2.3'') = Inr (1, 2, 3)"
          "int_tuple (Version ''1.2.3-beta'') = Inr (1, 2, 3)"
          "int_tuple (Version ''1.2.3'') = Inr (1, 2, 3)"
    by (simp_all add: version_eval)
  have i: "identifier' (Version ''01.2.3'') = []" "identifier' (Version ''1.2.3-beta'') = ''beta''"
    by (simp_all add: Version_def str_find_def)
  from Version_eq_ignores_identifier [OF n(1) n(2) c(1) c(2)]
  have x: "Version_eq (Version ''01.2.3'') (Version ''1.2.3-beta'') = Inr True" by simp
  from Version_eq_ignores_identifier [OF n(3) n(3) c(3) c(3)]
  have y: "Version_eq (Version ''1.2.3'') (Version ''1.2.3'') = Inr True" by simp
  from Version_eq_ignores_identifier [OF n(3) n(2) c(3) c(2)]
  have z: "Version_eq (Version ''1.2.3'') (Version ''1.2.3-beta'') = Inr True" by simp
  from n c i x y z show ?thesis by simp
qed

text \<open>
  The claim C3 as it is written fails: \<open>parse("1.2.3") != parse("1.2.3-beta")\<close> is false.
\<close>

theorem Version_ne_identifier_counterexample:
  "Version_ne (Version ''1.2.3'') (Version ''1.2.3-beta'') = Inr False"
  by (simp add: version_eval)

text \<open>
  C10. When \<open>a\<close> or \<open>b\<close> is not numeric, \<open>a == b\<close> is true, whatever the components of
  \<open>b\<close> are.
\<close>

theorem Version_eq_non_numeric:
  "\<not> (is_numeric a \<and> is_numeric b) \<Longrightarrow> Version_eq a b = Inr True"
  by (auto simp add: Version_eq_def)

theorem Version_eq_non_numeric_witness:
  "\<not> (is_numeric (Version ''1.0a'') \<and> is_numeric (Version ''2.5''))
   \<and> Version ''1.0a'' \<noteq> Version ''2.5''
   \<and> Version_eq (Version ''1.0a'') (Version ''2.5'') = Inr True"
proof -
  have n: "\<not> (is_numeric (Version ''1.0a'') \<and> is_numeric (Version ''2.5''))"
    by (simp add: version_eval)
  have d: "Version ''1.0a'' \<noteq> Version ''2.5''"
    by (simp add: Version_def str_find_def)
  from Version_eq_non_numeric [OF n] n d show ?thesis by simp
qed

text \<open>
  C5, at the input where code and claim part. Both versions have a non-numeric \<open>minor\<close>,
  and \<open>("1", "0a", "0")\<close> is smaller than \<open>("1", "0b", "0")\<close>; the comparison raises
  \<open>AttributeError\<close>, and so do \<open><=\<close>, \<open>>\<close> and \<open>>=\<close>, which are derived from it.
\<close>

theorem Version_lt_non_numeric_raises:
  "Version_lt (Version ''1.0a'') (Version ''1.0b'') = Inl AttributeError
   \<and> Version_ge (Version ''1.0a'') (Version ''1.0b'') = Inl AttributeError"
  by (simp add: version_eval)

lemma int_tuple_raises:
  "int_tuple v = Inl e \<Longrightarrow> e = ValueError"
  by (auto simp add: int_tuple_def py_int_def split: sum.splits if_splits)

lemma Version_lt_raises_iff:
  "Version_lt a b = Inl AttributeError \<longleftrightarrow> \<not> (is_numeric a \<and> is_numeric b)"
  by (auto simp add: Version_lt_def split: sum.splits dest: int_tuple_raises)

section \<open>Properties of the reinstall verdict\<close>

text \<open>\<open>str_lt\<close> is the lexicographic order of the character codes.\<close>

lemma str_lt_lexord:
  "str_lt a b \<longleftrightarrow> (a, b) \<in> lexord {(x, y). (of_char x :: nat) < of_char y}"
  by (induction a b rule: str_lt.induct) auto

text \<open>
  C2 (as amended). When the mod is installed, no mod besides it and the alternatives of
  its prerequisites is installed, and the installed version equals the version of the
  manifest, then the call is a reinstall and its verdict follows the builds, compared as
  strings: an equal build gives \<open>safe_reinstall\<close>, a greater build of the manifest gives
  \<open>unsafe_reinstall\<close> (both allowed; their \<open>complex_\<close> forms when the mod has optional
  content), and a smaller one gives \<open>cant_reinstall_over_newer_build\<close> (blocked).
\<close>

theorem check_reinstallability_equal_version:
  assumes "map_of existing_content (name self) = Some previous"
    and "existing_other_mods self existing_content = []"
    and "map_of previous ''version'' = Some installed_version"
    and "map_of previous ''build'' = Some installed_build"
    and "Version_eq (Version installed_version) (Version (version self)) = Inr True"
  shows "check_reinstallability self existing_content descs =
           Inr (True,
                build self = installed_build \<or> str_gt (build self) installed_build,
                (if build self = installed_build
                 then (if truthy (optional_content self)
                       then Complex_safe_reinstall else Safe_reinstall)
                 else if str_gt (build self) installed_build
                 then (if truthy (optional_content self)
                       then Complex_unsafe_reinstall else Unsafe_reinstall)
                 else Cant_reinstall_over_newer_build),
                Some previous)"
  using assms by (simp add: check_reinstallability_def getitem_def)

text \<open>The three verdicts at concrete builds: installed \<open>"7"\<close> against the manifest's
  \<open>"7"\<close>, installed \<open>"10"\<close> against \<open>"7"\<close> (the manifest's build is the greater string), and
  installed \<open>"7"\<close> against \<open>"10"\<close>.\<close>

theorem check_reinstallability_equal_version_witness:
  "check_reinstallability (scenario_alpha ''7'' []) (installed_mod ''alpha'' ''1.0.0'' ''7'') []
     = Inr (True, True, Safe_reinstall,
            Some [(''version'', ''1.0.0''), (''build'', ''7''), (''display_name'', ''alpha'')])
   \<and> check_reinstallability (scenario_alpha ''7'' []) (installed_mod ''alpha'' ''1.0.0'' ''10'') []
     = Inr (True, True, Unsafe_reinstall,
            Some [(''version'', ''1.0.0''), (''build'', ''10''), (''display_name'', ''alpha'')])
   \<and> check_reinstallability (scenario_alpha ''10'' []) (installed_mod ''alpha'' ''1.0.0'' ''7'') []
     = Inr (True, False, Cant_reinstall_over_newer_build,
            Some [(''version'', ''1.0.0''), (''build'', ''7''), (''display_name'', ''alpha'')])"
proof -
  have v: "Version_eq (Version ''1.0.0'') (Version ''1.0.0'') = Inr True"
    by (simp add: version_eval)
  have a: "check_reinstallability (scenario_alpha ''7'' []) (installed_mod ''alpha'' ''1.0.0'' ''7'') []
     = Inr (True, True, Safe_reinstall,
            Some [(''version'', ''1.0.0''), (''build'', ''7''), (''display_name'', ''alpha'')])"
    using v check_reinstallability_equal_version
      [of "installed_mod ''alpha'' ''1.0.0'' ''7''" "scenario_alpha ''7'' []"
          "[(''version'', ''1.0.0''), (''build'', ''7''), (''display_name'', ''alpha'')]"
          "''1.0.0''" "''7''" "[]"]
    by (simp add: scenario_alpha_def installed_mod_def existing_other_mods_def str_gt_def)
  have b: "check_reinstallability (scenario_alpha ''7'' []) (installed_mod ''alpha'' ''1.0.0'' ''10'') []
     = Inr (True, True, Unsafe_reinstall,
            Some [(''version'', ''1.0.0''), (''build'', ''10''), (''display_name'', ''alpha'')])"
    using v check_reinstallability_equal_version
      [of "installed_mod ''alpha'' ''1.0.0'' ''10''" "scenario_alpha ''7'' []"
          "[(''version'', ''1.0.0''), (''build'', ''10''), (''display_name'', ''alpha'')]"
          "''1.0.0''" "''10''" "[]"]
    by (simp add: scenario_alpha_def installed_mod_def existing_other_mods_def str_gt_def)
  have c: "check_reinstallability (scenario_alpha ''10'' []) (installed_mod ''alpha'' ''1.0.0'' ''7'') []
     = Inr (True, False, Cant_reinstall_over_newer_build,
            Some [(''version'', ''1.0.0''), (''build'', ''7''), (''display_name'', ''alpha'')])"
    using v check_reinstallability_equal_version
      [of "installed_mod ''alpha'' ''1.0.0'' ''7''" "scenario_alpha ''10'' []"
          "[(''version'', ''1.0.0''), (''build'', ''7''), (''display_name'', ''alpha'')]"
          "''1.0.0''" "''7''" "[]"]
    by (simp add: scenario_alpha_def installed_mod_def existing_other_mods_def str_gt_def)
  from a b c show ?thesis by simp
qed

text \<open>
  The claim C2 as it is written fails in its example: with the installed build \<open>"10"\<close> and
  the manifest's build \<open>"7"\<close> the string \<open>"7"\<close> is greater than \<open>"10"\<close>, and the reinstall
  is not blocked.
\<close>

theorem check_reinstallability_build_counterexample:
  "str_gt ''7'' ''10''
   \<and> check_reinstallability (scenario_alpha ''7'' []) (installed_mod ''alpha'' ''1.0.0'' ''10'') []
       \<noteq> Inr (True, False, Cant_reinstall_over_newer_build,
               Some [(''version'', ''1.0.0''), (''build'', ''10''), (''display_name'', ''alpha'')])"
  by (simp add: check_reinstallability_def scenario_alpha_def installed_mod_def
      existing_other_mods_def getitem_def version_eval str_gt_def)

section \<open>Properties of the version verdict and of the style\<close>

text \<open>The verdict that the loop over the constraints leaves is that of the last
  constraint.\<close>

lemma versions_loop_last:
  "versions_loop ec n (vs @ [v]) st = Inr (r, ops) \<Longrightarrow>
   \<exists>em iv. get_installed ec n = Inr em \<and> getitem em ''version'' = Inr iv
           \<and> requirement_constraint iv v = Inr r"
proof (induction vs arbitrary: st)
  case Nil
  then show ?case by (cases st) (auto split: sum.splits)
next
  case (Cons a vs)
  then show ?case by (cases st) (auto split: sum.splits)
qed

text \<open>
  C1, at the input where code and claim part. The mod \<open>beta\<close> is installed with version
  \<open>1.0\<close> and the prerequisite asks for \<open>>=2.0\<close> and \<open><3.0\<close>. The first constraint does not
  hold, the second does, and \<open>check_requirement\<close> ends with \<open>version_validated\<close> true and
  the prerequisite validated.
\<close>

theorem check_requirement_last_constraint_decides:
  "requirement_constraint ''1.0'' ''>=2.0'' = Inr False
   \<and> requirement_constraint ''1.0'' ''<3.0'' = Inr True
   \<and> check_requirement id (scenario_alpha ''7'' []) (requires_beta [''>=2.0'', ''<3.0''])
        (installed_mod ''beta'' ''1.0'' ''1'') [] False
      = Inr \<lparr> validated = True, error_msg = [], name_validated = True,
              version_validated = True, optional_content_validated = True,
              style_after = Range_style, name_label = [''beta''] \<rparr>"
  by (simp add: check_requirement_def scenario_alpha_def requires_beta_def installed_mod_def
      required_mod_def getitem_def get_installed_def requirement_constraint_def
      parse_compare_operation_def strip_signs_def set_add_def derive_style_def
      only_technical_name_available_def version_eval)

lemma two_elems:
  assumes "distinct ops" "set ops = {a, b}" "a \<noteq> b"
  shows "ops = [a, b] \<or> ops = [b, a]"
proof -
  have "length ops = 2" using assms distinct_card [of ops] by simp
  then obtain x y where "ops = [x, y]"
    by (cases ops) (auto simp: length_Suc_conv)
  with assms show ?thesis by (auto simp: doubleton_eq_iff)
qed

lemma derive_style_strict:
  assumes "distinct ops"
  shows "derive_style ops = Strict_style \<longleftrightarrow> set ops = {Eq}"
proof
  assume "derive_style ops = Strict_style"
  then have "length ops = 1 \<and> Eq \<in> set ops"
    by (auto simp: derive_style_def Let_def split: if_splits)
  then show "set ops = {Eq}" by (cases ops) auto
next
  assume s: "set ops = {Eq}"
  have "length ops = 1" using assms distinct_card [of ops] s by simp
  with s show "derive_style ops = Strict_style" by (simp add: derive_style_def)
qed

lemma derive_style_range_lt:
  assumes "distinct ops" "set ops = {l, Lt}" "l \<in> {Ge, Gt}"
  shows "derive_style ops = Range_style"
proof -
  from assms have "l \<noteq> Lt" by auto
  from two_elems [OF assms(1,2) this] assms(3) show ?thesis
    by (auto simp: derive_style_def)
qed

lemma derive_style_range_only:
  assumes "derive_style ops = Range_style"
  shows "\<exists>l \<in> {Ge, Gt}. \<exists>u \<in> {Le, Lt}. set ops = {l, u}"
proof -
  from assms have len: "length ops = 2"
    by (auto simp: derive_style_def Let_def split: if_splits)
  then obtain x y where xy: "ops = [x, y]"
    by (cases ops) (auto simp: length_Suc_conv)
  with assms show ?thesis
    by (auto simp: derive_style_def split: if_splits)
qed

lemma derive_style_agrees:
  "distinct ops \<Longrightarrow> style_agrees (set ops) (derive_style ops)"
  unfolding style_agrees_def
  using derive_style_strict [of ops] derive_style_range_lt [of ops] derive_style_range_only [of ops]
  by blast

lemma set_add_set: "set (set_add x xs) = insert x (set xs)"
  by (auto simp: set_add_def)

lemma set_add_distinct: "distinct xs \<Longrightarrow> distinct (set_add x xs)"
  by (auto simp: set_add_def)

lemma versions_loop_ops:
  "versions_loop ec n vs (b, ops) = Inr (r, ops') \<Longrightarrow> distinct ops \<Longrightarrow>
   distinct ops' \<and> set ops' = set ops \<union> parse_compare_operation ` set vs"
proof (induction vs arbitrary: b ops)
  case Nil
  then show ?case by simp
next
  case (Cons v vs)
  from Cons.prems(1) obtain b' where
    "versions_loop ec n vs (b', set_add (parse_compare_operation v) ops) = Inr (r, ops')"
    by (auto split: sum.splits)
  from Cons.IH [OF this set_add_distinct [OF Cons.prems(2)]]
  show ?case by (auto simp: set_add_set)
qed

lemma incomp_versions_loop_ops:
  "incomp_versions_loop iv vs (b, ops) = Inr (r, ops') \<Longrightarrow> distinct ops \<Longrightarrow>
   distinct ops' \<and> set ops' = set ops \<union> parse_compare_operation ` set vs"
proof (induction vs arbitrary: b ops)
  case Nil
  then show ?case by simp
next
  case (Cons v vs)
  from Cons.prems(1) obtain b' where
    "incomp_versions_loop iv vs (b', set_add (parse_compare_operation v) ops) = Inr (r, ops')"
    by (auto split: sum.splits)
  from Cons.IH [OF this set_add_distinct [OF Cons.prems(2)]]
  show ?case by (auto simp: set_add_set)
qed

lemma check_requirement_style:
  assumes "check_requirement set_order self prereq ec descs env = Inr r"
    and "name_validated r" and "truthy (prereq_versions prereq)"
  shows "\<exists>ops. distinct ops
           \<and> set ops = parse_compare_operation ` set (the_list (prereq_versions prereq))
           \<and> style_after r = derive_style (set_order ops)"
proof -
  let ?n = "required_mod (prereq_name prereq) ec"
  from assms obtain b ops where
    loop: "versions_loop ec ?n (the_list (prereq_versions prereq)) (True, []) = Inr (b, ops)"
    and st: "style_after r = derive_style (set_order ops)"
    by (auto simp: check_requirement_def Let_def split: sum.splits if_splits prod.splits)
  from versions_loop_ops [OF loop] st show ?thesis by auto
qed

lemma check_incompatible_style:
  assumes "check_incompatible set_order self incomp ec descs = Inr q"
    and "required_mod (prereq_name incomp) ec \<noteq> None" and "truthy (prereq_versions incomp)"
  shows "\<exists>ops. distinct ops
           \<and> set ops = parse_compare_operation ` set (the_list (prereq_versions incomp))
           \<and> incomp_style_after q = derive_style (set_order ops)"
proof -
  from assms obtain iv b ops where
    loop: "incomp_versions_loop iv (the_list (prereq_versions incomp)) (False, []) = Inr (b, ops)"
    and st: "incomp_style_after q = derive_style (set_order ops)"
    by (auto simp: check_incompatible_def Let_def split: sum.splits if_splits prod.splits option.splits)
  from incomp_versions_loop_ops [OF loop] st show ?thesis by auto
qed

lemmas requirement_eval =
  check_requirement_def scenario_alpha_def requires_beta_def installed_mod_def
  required_mod_def getitem_def get_installed_def requirement_constraint_def
  parse_compare_operation_def strip_signs_def set_add_def
  only_technical_name_available_def version_eval

lemma admissible_two:
  assumes "admissible_order set_order" "a \<noteq> b"
  shows "set_order [a, b] = [a, b] \<or> set_order [a, b] = [b, a]"
proof -
  from assms have "distinct (set_order [a, b])" "set (set_order [a, b]) = {a, b}"
    by (auto simp: admissible_order_def)
  from two_elems [OF this assms(2)] show ?thesis .
qed

lemma admissible_rev: "admissible_order rev"
  by (simp add: admissible_order_def)

lemma admissible_id: "admissible_order id"
  by (simp add: admissible_order_def)

text \<open>The scenario S2 under every enumeration order of the set of operators.\<close>

lemma scenario_S2_range:
  assumes "admissible_order set_order"
  shows "check_requirement set_order (scenario_alpha b []) (requires_beta [''>=2.0'', ''<3.0''])
        (installed_mod ''beta'' ''2.3.1'' b') [] False
      = Inr \<lparr> validated = True, error_msg = [], name_validated = True,
              version_validated = True, optional_content_validated = True,
              style_after = Range_style, name_label = [''beta''] \<rparr>"
proof -
  have "set_order [Ge, Lt] = [Ge, Lt] \<or> set_order [Ge, Lt] = [Lt, Ge]"
    using admissible_two [OF assms, of Ge Lt] by simp
  then have "derive_style (set_order [Ge, Lt]) = Range_style"
    by (auto simp: derive_style_def)
  then show ?thesis by (simp add: requirement_eval)
qed

text \<open>
  C6 (as amended). Whatever the order in which the set of operators is enumerated: after
  \<open>check_requirement\<close> has evaluated the constraints of a prerequisite (an alternative is
  installed and validated by name, the list is not empty, and no comparison raises), the
  stored style is \<open>strict\<close> exactly when the set of operators that the constraints use is
  \<open>{=}\<close>; it is \<open>range\<close> whenever that set is one lower bound (\<open>>=\<close> or \<open>>\<close>) together with
  \<open><\<close>, and \<open>range\<close> only if that set is one lower and one upper bound; it is \<open>mixed\<close>
  otherwise. The same holds for \<open>check_incompatible\<close> when an alternative is installed. In
  particular the prerequisite \<open>[">=2.0", "<3.0"]\<close> of scenario S2 yields \<open>range\<close> under
  every order.
\<close>

theorem constraint_style_derivation:
  assumes "admissible_order set_order"
  shows "(check_requirement set_order self prereq ec descs env = Inr r
            \<and> name_validated r \<and> truthy (prereq_versions prereq)
          \<longrightarrow> style_agrees (parse_compare_operation ` set (the_list (prereq_versions prereq)))
                (style_after r))
       \<and> (check_incompatible set_order self incomp ec descs = Inr q
            \<and> required_mod (prereq_name incomp) ec \<noteq> None \<and> truthy (prereq_versions incomp)
          \<longrightarrow> style_agrees (parse_compare_operation ` set (the_list (prereq_versions incomp)))
                (incomp_style_after q))
       \<and> check_requirement set_order (scenario_alpha b []) (requires_beta [''>=2.0'', ''<3.0''])
            (installed_mod ''beta'' ''2.3.1'' b') [] False
          = Inr \<lparr> validated = True, error_msg = [], name_validated = True,
                  version_validated = True, optional_content_validated = True,
                  style_after = Range_style, name_label = [''beta''] \<rparr>"
proof (intro conjI impI)
  assume a: "check_requirement set_order self prereq ec descs env = Inr r
            \<and> name_validated r \<and> truthy (prereq_versions prereq)"
  then obtain ops where o: "distinct ops"
      "set ops = parse_compare_operation ` set (the_list (prereq_versions prereq))"
      "style_after r = derive_style (set_order ops)"
    using check_requirement_style by blast
  from assms o(1) have "distinct (set_order ops)" "set (set_order ops) = set ops"
    by (auto simp: admissible_order_def)
  with derive_style_agrees [of "set_order ops"] o
  show "style_agrees (parse_compare_operation ` set (the_list (prereq_versions prereq)))
                (style_after r)" by simp
next
  assume a: "check_incompatible set_order self incomp ec descs = Inr q
            \<and> required_mod (prereq_name incomp) ec \<noteq> None \<and> truthy (prereq_versions incomp)"
  then obtain ops where o: "distinct ops"
      "set ops = parse_compare_operation ` set (the_list (prereq_versions incomp))"
      "incomp_style_after q = derive_style (set_order ops)"
    using check_incompatible_style by blast
  from assms o(1) have "distinct (set_order ops)" "set (set_order ops) = set ops"
    by (auto simp: admissible_order_def)
  with derive_style_agrees [of "set_order ops"] o
  show "style_agrees (parse_compare_operation ` set (the_list (prereq_versions incomp)))
                (incomp_style_after q)" by simp
next
  show "check_requirement set_order (scenario_alpha b []) (requires_beta [''>=2.0'', ''<3.0''])
            (installed_mod ''beta'' ''2.3.1'' b') [] False
          = Inr \<lparr> validated = True, error_msg = [], name_validated = True,
                  version_validated = True, optional_content_validated = True,
                  style_after = Range_style, name_label = [''beta''] \<rparr>"
    using scenario_S2_range [OF assms] .
qed

lemma incompatible_beta_eval:
  "check_incompatible rev (scenario_alpha ''7'' []) (requires_beta [''>1.0'', ''<3.0''])
        (installed_mod ''beta'' ''2.3.1'' ''1'') [(''beta'', ''Beta 2.3.1'')]
   = Inr \<lparr> incompatible_with_game_copy = True,
           incomp_error_msg = [Found_incompatible False [''beta''] [''>1.0'', ''<3.0''] [],
                               Version_available (Some ''Beta 2.3.1'')],
           version_incomp = True, optional_content_incomp = True,
           incomp_style_after = Range_style, incomp_name_label = [''beta''] \<rparr>"
  by (simp add: check_incompatible_def incompatible_constraint_def derive_style_def requirement_eval)

lemma requirement_strict_eval:
  "check_requirement rev (scenario_alpha ''7'' []) (requires_beta [''2.3.1'', ''=2.3.1''])
        (installed_mod ''beta'' ''2.3.1'' ''1'') [] False
   = Inr \<lparr> validated = True, error_msg = [], name_validated = True,
           version_validated = True, optional_content_validated = True,
           style_after = Strict_style, name_label = [''beta''] \<rparr>"
  by (simp add: derive_style_def requirement_eval)

theorem constraint_style_derivation_witness:
  "admissible_order rev
   \<and> style_agrees (parse_compare_operation ` set [''2.3.1'', ''=2.3.1'']) Strict_style
   \<and> style_agrees (parse_compare_operation ` set [''>1.0'', ''<3.0'']) Range_style
   \<and> check_requirement rev (scenario_alpha ''7'' []) (requires_beta [''>=2.0'', ''<3.0''])
        (installed_mod ''beta'' ''2.3.1'' ''1'') [] False
      = Inr \<lparr> validated = True, error_msg = [], name_validated = True,
              version_validated = True, optional_content_validated = True,
              style_after = Range_style, name_label = [''beta''] \<rparr>"
proof -
  note t = constraint_style_derivation [OF admissible_rev,
      where self = "scenario_alpha ''7'' []" and prereq = "requires_beta [''2.3.1'', ''=2.3.1'']"
        and ec = "installed_mod ''beta'' ''2.3.1'' ''1''" and env = False
        and incomp = "requires_beta [''>1.0'', ''<3.0'']" and b = "''7''" and b' = "''1''"]
  have p: "truthy (prereq_versions (requires_beta [''2.3.1'', ''=2.3.1'']))"
      "truthy (prereq_versions (requires_beta [''>1.0'', ''<3.0'']))"
      "the_list (prereq_versions (requires_beta [''2.3.1'', ''=2.3.1''])) = [''2.3.1'', ''=2.3.1'']"
      "the_list (prereq_versions (requires_beta [''>1.0'', ''<3.0''])) = [''>1.0'', ''<3.0'']"
      "required_mod (prereq_name (requires_beta [''>1.0'', ''<3.0'']))
         (installed_mod ''beta'' ''2.3.1'' ''1'') \<noteq> None"
    by (simp_all add: requires_beta_def required_mod_def installed_mod_def)
  have 1: "style_agrees (parse_compare_operation ` set [''2.3.1'', ''=2.3.1'']) Strict_style"
    using t [where r = "\<lparr> validated = True, error_msg = [], name_validated = True,
           version_validated = True, optional_content_validated = True,
           style_after = Strict_style, name_label = [''beta''] \<rparr>" and descs = "[]"]
      requirement_strict_eval p
    by simp
  have 2: "style_agrees (parse_compare_operation ` set [''>1.0'', ''<3.0'']) Range_style"
    using t [where q = "\<lparr> incompatible_with_game_copy = True,
           incomp_error_msg = [Found_incompatible False [''beta''] [''>1.0'', ''<3.0''] [],
                               Version_available (Some ''Beta 2.3.1'')],
           version_incomp = True, optional_content_incomp = True,
           incomp_style_after = Range_style, incomp_name_label = [''beta''] \<rparr>"
        and descs = "[(''beta'', ''Beta 2.3.1'')]"] incompatible_beta_eval p
    by simp
  from t have 3: "check_requirement rev (scenario_alpha ''7'' []) (requires_beta [''>=2.0'', ''<3.0''])
        (installed_mod ''beta'' ''2.3.1'' ''1'') [] False
      = Inr \<lparr> validated = True, error_msg = [], name_validated = True,
              version_validated = True, optional_content_validated = True,
              style_after = Range_style, name_label = [''beta''] \<rparr>"
    by simp
  from admissible_rev 1 2 3 show ?thesis by simp
qed

text \<open>
  The claim C6 as it is written fails: the constraints \<open>[">=1.0", ">=2.0", "<3.0"]\<close> hold
  two lower bounds, and the stored style is \<open>range\<close>, because the style is derived from the
  set of the operators used.
\<close>

theorem constraint_style_counterexample:
  "map parse_compare_operation [''>=1.0'', ''>=2.0'', ''<3.0''] = [Ge, Ge, Lt]
   \<and> check_requirement id (scenario_alpha ''7'' [])
        (requires_beta [''>=1.0'', ''>=2.0'', ''<3.0'']) (installed_mod ''beta'' ''2.3.1'' ''1'')
        [] False
      = Inr \<lparr> validated = True, error_msg = [], name_validated = True,
              version_validated = True, optional_content_validated = True,
              style_after = Range_style, name_label = [''beta''] \<rparr>"
  by (simp add: derive_style_def requirement_eval)

text \<open>The set \<open>{>=, <=}\<close> gets the style \<open>range\<close> in one enumeration order and \<open>mixed\<close>
  in the other: the second test of the source names \<open>operator.lt\<close> twice.\<close>

lemma derive_style_order_dependent:
  "derive_style [Ge, Le] = Range_style \<and> derive_style [Le, Ge] = Mixed_style"
  by (simp add: derive_style_def)

section \<open>Properties of \<open>check_requirements\<close>\<close>

lemma skipped_comrem:
  "name self = ''community_remaster'' \<Longrightarrow> first_is_compatch p \<Longrightarrow> skipped_prereq self p = Inr True"
  by (auto simp: skipped_prereq_def first_is_compatch_def split: list.splits)

lemma not_skipped_comrem:
  "name self = ''community_remaster'' \<Longrightarrow> skipped_prereq self p = Inr False
   \<Longrightarrow> \<not> first_is_compatch p"
  by (auto simp: skipped_prereq_def first_is_compatch_def split: list.splits)

lemma same_but_prerequisites:
  assumes "self1\<lparr>prerequisites := []\<rparr> = self2\<lparr>prerequisites := []\<rparr>"
  shows "name self1 = name self2" "requirements_style self1 = requirements_style self2"
    "individual_require_status self1 = individual_require_status self2"
proof -
  have "name (self1\<lparr>prerequisites := []\<rparr>) = name (self2\<lparr>prerequisites := []\<rparr>)"
    using assms by simp
  then show "name self1 = name self2" by simp
  have "requirements_style (self1\<lparr>prerequisites := []\<rparr>)
        = requirements_style (self2\<lparr>prerequisites := []\<rparr>)"
    using assms by simp
  then show "requirements_style self1 = requirements_style self2" by simp
  have "individual_require_status (self1\<lparr>prerequisites := []\<rparr>)
        = individual_require_status (self2\<lparr>prerequisites := []\<rparr>)"
    using assms by simp
  then show "individual_require_status self1 = individual_require_status self2" by simp
qed

lemma update_after_prerequisites:
  "m\<lparr>requirements_style := x, individual_require_status := y\<rparr>\<lparr>prerequisites := z\<rparr>
   = m\<lparr>prerequisites := z\<rparr>\<lparr>requirements_style := x, individual_require_status := y\<rparr>"
  by (cases m) simp

lemma check_requirement_cong:
  assumes "name self1 = name self2" "requirements_style self1 = requirements_style self2"
  shows "check_requirement so self1 p ec d env = check_requirement so self2 p ec d env"
  unfolding check_requirement_def assms by (rule refl)

lemma skipped_prereq_cong:
  "name self1 = name self2 \<Longrightarrow> skipped_prereq self1 p = skipped_prereq self2 p"
  by (simp add: skipped_prereq_def)

lemma requirement_step_cong:
  assumes e: "self1\<lparr>prerequisites := []\<rparr> = self2\<lparr>prerequisites := []\<rparr>"
  shows "loop_view (requirement_step so ec d env p (met, msgs, self1, passed1))
       = loop_view (requirement_step so ec d env p (met, msgs, self2, passed2))"
proof -
  note s = same_but_prerequisites [OF e]
  have c: "check_requirement so self1 p ec d env = check_requirement so self2 p ec d env"
    using s by (intro check_requirement_cong)
  have u: "\<And>x y. self1\<lparr>requirements_style := x, individual_require_status := y\<rparr>\<lparr>prerequisites := []\<rparr>
        = self2\<lparr>requirements_style := x, individual_require_status := y\<rparr>\<lparr>prerequisites := []\<rparr>"
    using arg_cong [OF e, of "\<lambda>m. m\<lparr>requirements_style := x, individual_require_status := y\<rparr>" for x y]
    by (simp add: update_after_prerequisites)
  show ?thesis
    using c s u by (auto simp: requirement_step_def loop_view_def Let_def split: sum.splits)
qed

lemma requirement_step_name:
  "requirement_step so ec d env p (met, msgs, self, passed) = Inr (met', msgs', self', passed')
   \<Longrightarrow> name self' = name self"
  by (auto simp: requirement_step_def Let_def split: sum.splits)

text \<open>For the mod \<open>community_remaster\<close> the loop over the prerequisites ends in the same
  state whether the prerequisites that start with \<open>community_patch\<close> are in the list or
  not.\<close>

lemma requirements_loop_skip:
  assumes "name self1 = ''community_remaster''"
    and "self1\<lparr>prerequisites := []\<rparr> = self2\<lparr>prerequisites := []\<rparr>"
  shows "loop_view (requirements_loop so ec d env ps (met, msgs, self1, passed1))
       = loop_view (requirements_loop so ec d env (filter (\<lambda>p. \<not> first_is_compatch p) ps)
              (met, msgs, self2, passed2))"
  using assms
proof (induction ps arbitrary: met msgs self1 self2 passed1 passed2)
  case Nil
  then show ?case by (simp add: loop_view_def)
next
  case (Cons p ps)
  note n2 = same_but_prerequisites(1) [OF Cons.prems(2)]
  show ?case
  proof (cases "first_is_compatch p")
    case True
    have "skipped_prereq self1 p = Inr True" using skipped_comrem [OF Cons.prems(1) True] .
    with True Cons.IH [OF Cons.prems] show ?thesis by simp
  next
    case False
    have sk2: "skipped_prereq self2 p = skipped_prereq self1 p"
      using skipped_prereq_cong [OF n2] by simp
    show ?thesis
    proof (cases "skipped_prereq self1 p")
      case (Inl e)
      with False sk2 show ?thesis by (simp add: loop_view_def)
    next
      case (Inr sk)
      with False Cons.prems have sk: "sk = False"
        by (auto simp: skipped_prereq_def first_is_compatch_def split: list.splits)
      note c = requirement_step_cong [OF Cons.prems(2), of so ec d env p met msgs passed1 passed2]
      show ?thesis
      proof (cases "requirement_step so ec d env p (met, msgs, self1, passed1)")
        case (Inl e)
        with c have "requirement_step so ec d env p (met, msgs, self2, passed2) = Inl e"
          by (cases "requirement_step so ec d env p (met, msgs, self2, passed2)")
             (auto simp: loop_view_def)
        with Inl Inr sk sk2 False show ?thesis by (auto simp: loop_view_def)
      next
        case st1: (Inr s1)
        obtain m1 g1 f1 q1 where s1: "s1 = (m1, g1, f1, q1)" by (cases s1) auto
        with st1 c obtain f2 q2 where
          st2: "requirement_step so ec d env p (met, msgs, self2, passed2) = Inr (m1, g1, f2, q2)"
          and f: "f1\<lparr>prerequisites := []\<rparr> = f2\<lparr>prerequisites := []\<rparr>"
          by (cases "requirement_step so ec d env p (met, msgs, self2, passed2)")
             (auto simp: loop_view_def)
        from st1 s1 have "name f1 = name self1" using requirement_step_name by blast
        with Cons.prems have n: "name f1 = ''community_remaster''" by simp
        from Cons.IH [OF n f, of m1 g1 q1 q2] st1 s1 st2 Inr sk sk2 False
        show ?thesis by simp
      qed
    qed
  qed
qed

lemma requirements_loop_entries:
  assumes "name self = ''community_remaster''"
    and "requirements_loop so ec d env ps (met, msgs, self, passed) = Inr (met', msgs', self', passed')"
    and "list_all (\<lambda>entry. \<not> first_is_compatch (fst entry)) (individual_require_status self)"
  shows "list_all (\<lambda>entry. \<not> first_is_compatch (fst entry)) (individual_require_status self')"
  using assms
proof (induction ps arbitrary: met msgs self passed)
  case Nil
  then show ?case by simp
next
  case (Cons p ps)
  show ?case
  proof (cases "skipped_prereq self p")
    case (Inl e)
    with Cons.prems(2) show ?thesis by simp
  next
    case (Inr sk)
    show ?thesis
    proof (cases sk)
      case True
      with Inr Cons.prems(2) have
        "requirements_loop so ec d env ps (met, msgs, self, passed @ [p]) = Inr (met', msgs', self', passed')"
        by simp
      from Cons.IH [OF Cons.prems(1) this Cons.prems(3)] show ?thesis .
    next
      case False
      with Inr have nf: "\<not> first_is_compatch p"
        using not_skipped_comrem [OF Cons.prems(1)] by simp
      from False Inr Cons.prems(2) obtain m1 g1 f1 q1 where
        st: "requirement_step so ec d env p (met, msgs, self, passed) = Inr (m1, g1, f1, q1)"
        and lp: "requirements_loop so ec d env ps (m1, g1, f1, q1) = Inr (met', msgs', self', passed')"
        by (auto split: sum.splits)
      from st have n: "name f1 = name self" using requirement_step_name by blast
      from st nf Cons.prems(3)
      have "list_all (\<lambda>entry. \<not> first_is_compatch (fst entry)) (individual_require_status f1)"
        by (auto simp: requirement_step_def Let_def first_is_compatch_def split: sum.splits)
      from Cons.IH [OF _ lp this] n Cons.prems(1) show ?thesis by simp
    qed
  qed
qed

text \<open>
  C9. For the mod named \<open>community_remaster\<close>, \<open>check_requirements\<close> has the same outcome
  (the exception, or \<open>requirements_met\<close>, the messages, the style and
  \<open>individual_require_status\<close>) as on the same mod without the prerequisites whose first
  alternative name is \<open>community_patch\<close>, whatever is installed: such a prerequisite is
  never evaluated and cannot make \<open>requirements_met\<close> false. And no entry of
  \<open>individual_require_status\<close> is for such a prerequisite.
\<close>

theorem check_requirements_skips_compatch:
  assumes "name self = ''community_remaster''"
  shows "requirements_outcome (check_requirements set_order self existing_content descs patcher_version)
         = requirements_outcome
             (check_requirements set_order
                (self\<lparr>prerequisites := filter (\<lambda>p. \<not> first_is_compatch p) (prerequisites self)\<rparr>)
                existing_content descs patcher_version)
       \<and> (case check_requirements set_order self existing_content descs patcher_version of
            Inl e \<Rightarrow> True
          | Inr (requirements_met, messages, self') \<Rightarrow>
              list_all (\<lambda>entry. \<not> first_is_compatch (fst entry)) (individual_require_status self'))"
proof
  let ?f = "filter (\<lambda>p. \<not> first_is_compatch p) (prerequisites self)"
  let ?env = "map_of existing_content ''community_remaster'' = None
                             \<and> map_of existing_content ''community_patch'' \<noteq> None"
  have m: "compatible_with_mod_manager (self\<lparr>prerequisites := ?f\<rparr>) patcher_version
         = compatible_with_mod_manager self patcher_version"
    by (simp add: compatible_with_mod_manager_def split: sum.splits prod.splits)
  have n: "name (self\<lparr>individual_require_status := []\<rparr>) = ''community_remaster''"
    using assms by simp
  have e: "self\<lparr>individual_require_status := []\<rparr>\<lparr>prerequisites := []\<rparr>
         = self\<lparr>prerequisites := ?f, individual_require_status := []\<rparr>\<lparr>prerequisites := []\<rparr>"
    by simp
  note l = requirements_loop_skip [OF n e, of set_order existing_content descs ?env
             "prerequisites self" True "[]" "[]" "[]"]
  show "requirements_outcome (check_requirements set_order self existing_content descs patcher_version)
         = requirements_outcome
             (check_requirements set_order (self\<lparr>prerequisites := ?f\<rparr>)
                existing_content descs patcher_version)"
    using l m
    by (auto simp: check_requirements_def requirements_outcome_def loop_view_def Let_def
             dest: same_but_prerequisites split: sum.splits)
next
  show "case check_requirements set_order self existing_content descs patcher_version of
            Inl e \<Rightarrow> True
          | Inr (requirements_met, messages, self') \<Rightarrow>
              list_all (\<lambda>entry. \<not> first_is_compatch (fst entry)) (individual_require_status self')"
    using assms
    by (auto simp: check_requirements_def Let_def split: sum.splits
             dest!: requirements_loop_entries [rotated])
qed

text \<open>Nothing is installed: \<open>community_remaster\<close> meets its prerequisite on
  \<open>community_patch\<close>, with no entry in \<open>individual_require_status\<close>.\<close>

theorem check_requirements_skips_compatch_witness:
  "name (scenario_comrem [requires_compatch]) = ''community_remaster''
   \<and> first_is_compatch requires_compatch
   \<and> requirements_outcome (check_requirements id (scenario_comrem [requires_compatch]) [] [] [])
       = Inr (True, [], Mixed_style, [])"
proof -
  have n: "name (scenario_comrem [requires_compatch]) = ''community_remaster''"
    by (simp add: scenario_comrem_def)
  have f: "first_is_compatch requires_compatch"
    by (simp add: first_is_compatch_def requires_compatch_def)
  have "requirements_outcome (check_requirements id (scenario_comrem [requires_compatch]) [] [] [])
       = requirements_outcome
           (check_requirements id
              ((scenario_comrem [requires_compatch])\<lparr>prerequisites :=
                 filter (\<lambda>p. \<not> first_is_compatch p)
                   (prerequisites (scenario_comrem [requires_compatch]))\<rparr>) [] [] [])"
    using check_requirements_skips_compatch [OF n, of id "[]" "[]" "[]"] by simp
  also have "\<dots> = Inr (True, [], Mixed_style, [])"
    using f by (simp add: scenario_comrem_def scenario_alpha_def check_requirements_def
        requirements_outcome_def)
  finally show ?thesis using n f by simp
qed

text \<open>The same prerequisite is not met by a mod of another name.\<close>

lemma check_requirements_compatch_other_mod:
  "requirements_outcome (check_requirements id (scenario_alpha ''7'' [requires_compatch]) [] [] [])
   = Inr (False,
          [Required_mod_not_found, Requirement_line True [''community_patch''] [] [],
           Check_for_a_new_version],
          Mixed_style,
          [(requires_compatch\<lparr>prereq_name_label := Some [''community_patch'']\<rparr>, False,
            [Required_mod_not_found, Requirement_line True [''community_patch''] [] []])])"
  by (simp add: scenario_alpha_def requires_compatch_def check_requirements_def
      requirements_outcome_def requirement_step_def skipped_prereq_def check_requirement_def
      required_mod_def only_technical_name_available_def append_new_def Let_def)

section \<open>Properties of \<open>install\<close>\<close>

lemma options_dict_name:
  "getitem (options_dict self) k = Inr w \<Longrightarrow> option_name w = k"
  by (auto simp: getitem_def options_dict_def split: option.splits dest!: map_of_SomeD)

lemma install_loop_files:
  "install_loop self sel keys acc = Inr files \<Longrightarrow>
   files = acc @ concat (map (\<lambda>k. copy_jobs self (k, the (map_of sel k))) keys)"
proof (induction keys arbitrary: acc)
  case Nil
  then show ?case by simp
next
  case (Cons k keys)
  show ?case
  proof (cases "k = ''base''")
    case True
    with Cons.prems have
      "install_loop self sel keys (acc @ [distibution_dir self @ [''data'']]) = Inr files"
      by (auto split: option.splits if_splits)
    from Cons.IH [OF this] True show ?thesis by (simp add: copy_jobs_def)
  next
    case False
    with Cons.prems obtain w v where w: "getitem (options_dict self) k = Inr w"
      and v: "getitem sel k = Inr v"
      by (auto split: sum.splits)
    from options_dict_name [OF w] have n: "option_name w = k" .
    from v have m: "map_of sel k = Some v" by (auto simp: getitem_def split: option.splits)
    from Cons.prems False w v n
    have "install_loop self sel keys (acc @ copy_jobs self (k, v)) = Inr files"
      by (auto simp: copy_jobs_def Let_def split: if_splits)
    from Cons.IH [OF this] m show ?thesis by simp
  qed
qed

text \<open>
  What the loop of \<open>install\<close> over the selection computes. When it ends without an
  exception, the list of directories that it hands to \<open>copy_from_to\<close> is the concatenation,
  in the order of the selection, of what each item adds (\<open>copy_jobs\<close>): the base data
  directory for the key \<open>base\<close>, whatever value it has and whether or not the mod has
  \<open>no_base_content\<close>; for an option, its data directory (\<open>yes\<close>), nothing (\<open>skip\<close>), or its
  data directory followed by the directory of the chosen setting.
\<close>

lemma install_loop_copy_plan:
  assumes "distinct (map fst install_settings)"
    and "install_loop self install_settings (map fst install_settings) [] = Inr mod_files"
  shows "mod_files = concat (map (copy_jobs self) install_settings)
         \<and> (\<forall>choice rest. install_settings = (''base'', choice) # rest
              \<longrightarrow> take 1 mod_files = [distibution_dir self @ [''data'']])"
proof -
  have e: "map (\<lambda>k. copy_jobs self (k, the (map_of install_settings k))) (map fst install_settings)
        = map (copy_jobs self) install_settings"
    using assms(1) by (auto simp: comp_def)
  have f: "mod_files = concat (map (copy_jobs self) install_settings)"
    using install_loop_files [OF assms(2)] unfolding e by simp
  then show ?thesis by (auto simp: copy_jobs_def)
qed

lemma scenario_options_plan:
  "install_loop scenario_options
     [(''base'', ''skip''), (''roads'', ''yes''), (''hud'', ''large'')]
     (map fst [(''base'', ''skip''), (''roads'', ''yes''), (''hud'', ''large'')]) []
   = Inr [[''mods'', ''alpha'', ''data''], [''mods'', ''alpha'', ''roads'', ''data''],
          [''mods'', ''alpha'', ''hud'', ''data''], [''mods'', ''alpha'', ''hud'', ''large'']]"
  by (simp add: scenario_options_def scenario_alpha_def options_dict_def getitem_def)

lemma install_loop_copy_plan_example:
  "no_base_content scenario_options
   \<and> concat (map (copy_jobs scenario_options)
        [(''base'', ''skip''), (''roads'', ''yes''), (''hud'', ''large'')])
     = [[''mods'', ''alpha'', ''data''], [''mods'', ''alpha'', ''roads'', ''data''],
        [''mods'', ''alpha'', ''hud'', ''data''], [''mods'', ''alpha'', ''hud'', ''large'']]
   \<and> take 1 [[''mods'', ''alpha'', ''data''], [''mods'', ''alpha'', ''roads'', ''data''],
        [''mods'', ''alpha'', ''hud'', ''data''], [''mods'', ''alpha'', ''hud'', ''large'']]
     = [distibution_dir scenario_options @ [''data'']]"
proof -
  have d: "distinct (map fst [(''base'', ''skip''), (''roads'', ''yes''), (''hud'', ''large'')])"
    by simp
  note a = install_loop_copy_plan [OF d scenario_options_plan, THEN conjunct1, symmetric]
  have b: "no_base_content scenario_options"
    by (simp add: scenario_options_def scenario_alpha_def)
  have c: "take 1 [[''mods'', ''alpha'', ''data''], [''mods'', ''alpha'', ''roads'', ''data''],
        [''mods'', ''alpha'', ''hud'', ''data''], [''mods'', ''alpha'', ''hud'', ''large'']]
     = [distibution_dir scenario_options @ [''data'']]"
    by (simp add: scenario_options_def scenario_alpha_def)
  from b a c show ?thesis by (intro conjI)
qed

text \<open>
  C4, at the input where code and claim part. The mod has \<open>no_base_content\<close> and the
  selection is \<open>{base: "skip"}\<close>: the claim has no job for the base data directory. The loop
  of \<open>install\<close> produces the plan that consists of the base data directory, and
  \<open>install\<close> hands exactly this plan to \<open>copy_from_to\<close> and reports success (the
  \<open>copy_from_to\<close> of the second statement raises on every other plan). The same plan
  results for the mod with base content and the selection \<open>{base: "skip"}\<close>. The value
  \<open>install_base\<close> is read and tested against \<open>None\<close> only, where the branch of the options
  tests the value \<open>"skip"\<close>, and \<open>no_base_content\<close> is not read.
\<close>

theorem install_copies_base_on_skip:
  "install_loop ((scenario_alpha ''7'' [])\<lparr>no_base_content := True\<rparr>)
      [(''base'', ''skip'')] [''base''] []
     = Inr [[''mods'', ''alpha'', ''data'']]
   \<and> install id
        (\<lambda>files dest. if files = [[''mods'', ''alpha'', ''data'']] \<and> dest = [''game'', ''data'']
                       then None else Some ExternalError)
        ((scenario_alpha ''7'' [])\<lparr>no_base_content := True\<rparr>) [''game'', ''data'']
        [(''base'', ''skip'')] [] []
     = Inr (True, [])
   \<and> install_loop (scenario_alpha ''7'' []) [(''base'', ''skip'')] [''base''] []
     = Inr [[''mods'', ''alpha'', ''data'']]"
  by (simp add: install_def install_try_def check_requirements_def scenario_alpha_def)

text \<open>
  C8 (as amended). When the body of \<open>install\<close> raises an exception of class \<open>Exception\<close>
  (in \<open>check_requirements\<close>, in the loop over the selection or in \<open>copy_from_to\<close>),
  \<open>install\<close> returns \<open>(False, [])\<close>: the failure status with an empty list of errors.
  When the body raises an exception of another class (\<open>KeyboardInterrupt\<close>, \<open>SystemExit\<close>),
  \<open>install\<close> does not return: the exception propagates to the caller.
\<close>

theorem install_catches_exceptions:
  assumes "install_try set_order copy_from_to self game_data_path install_settings
             existing_content descs = Inl ex"
  shows "install set_order copy_from_to self game_data_path install_settings existing_content
           descs = (if is_Exception ex then Inr (False, []) else Inl ex)"
  using assms by (simp add: install_def)

text \<open>
  Bodies that raise: a key of the selection that names no option, a \<open>copy_from_to\<close> that
  raises an exception of class \<open>Exception\<close>, a prerequisite with a non-numeric version
  constraint, and a \<open>copy_from_to\<close> during which the user interrupts the program.
\<close>

lemma install_try_unknown_option:
  "install_try id (\<lambda>files dest. None) (scenario_alpha ''7'' []) [''game'', ''data'']
     [(''ghost'', ''yes'')] [] [] = Inl KeyError"
  by (simp add: install_try_def check_requirements_def scenario_alpha_def options_dict_def
      getitem_def)

lemma install_try_copy_fails:
  "install_try id (\<lambda>files dest. Some ExternalError) (scenario_alpha ''7'' []) [''game'', ''data'']
     [(''base'', ''yes'')] [] [] = Inl ExternalError"
  by (simp add: install_try_def check_requirements_def scenario_alpha_def)

lemma install_try_non_numeric_constraint:
  "install_try id (\<lambda>files dest. None) (scenario_alpha ''7'' [requires_beta [''>1.0a'']])
     [''game'', ''data''] [(''base'', ''yes'')] (installed_mod ''beta'' ''2.0'' ''1'') []
   = Inl AttributeError"
  by (simp add: install_try_def check_requirements_def requirement_step_def skipped_prereq_def
      requirement_eval)

lemma install_try_copy_interrupted:
  "install_try id (\<lambda>files dest. Some KeyboardInterrupt) (scenario_alpha ''7'' [])
     [''game'', ''data''] [(''base'', ''yes'')] [] [] = Inl KeyboardInterrupt"
  by (simp add: install_try_def check_requirements_def scenario_alpha_def)

theorem install_catches_exceptions_witness:
  "install_try id (\<lambda>files dest. None) (scenario_alpha ''7'' []) [''game'', ''data'']
     [(''ghost'', ''yes'')] [] [] = Inl KeyError
   \<and> install id (\<lambda>files dest. None) (scenario_alpha ''7'' []) [''game'', ''data'']
       [(''ghost'', ''yes'')] [] [] = Inr (False, [])
   \<and> install id (\<lambda>files dest. Some ExternalError) (scenario_alpha ''7'' []) [''game'', ''data'']
       [(''base'', ''yes'')] [] [] = Inr (False, [])
   \<and> install id (\<lambda>files dest. None) (scenario_alpha ''7'' [requires_beta [''>1.0a'']])
       [''game'', ''data''] [(''base'', ''yes'')] (installed_mod ''beta'' ''2.0'' ''1'') []
       = Inr (False, [])
   \<and> install id (\<lambda>files dest. Some SystemExit) (scenario_alpha ''7'' []) [''game'', ''data'']
       [(''base'', ''yes'')] [] [] = Inl SystemExit"
proof -
  have s: "install_try id (\<lambda>files dest. Some SystemExit) (scenario_alpha ''7'' [])
             [''game'', ''data''] [(''base'', ''yes'')] [] [] = Inl SystemExit"
    by (simp add: install_try_def check_requirements_def scenario_alpha_def)
  from install_try_unknown_option
    install_catches_exceptions [OF install_try_unknown_option]
    install_catches_exceptions [OF install_try_copy_fails]
    install_catches_exceptions [OF install_try_non_numeric_constraint]
    install_catches_exceptions [OF s]
  show ?thesis by simp
qed

text \<open>
  The claim C8 as it is written fails: the handler is \<open>except Exception\<close>, and a
  \<open>KeyboardInterrupt\<close> that arrives while \<open>copy_from_to\<close> runs propagates out of
  \<open>install\<close>; no pair is returned.
\<close>

theorem install_propagates_counterexample:
  "install id (\<lambda>files dest. Some KeyboardInterrupt) (scenario_alpha ''7'' [])
     [''game'', ''data''] [(''base'', ''yes'')] [] [] = Inl KeyboardInterrupt
   \<and> install id (\<lambda>files dest. Some KeyboardInterrupt) (scenario_alpha ''7'' [])
       [''game'', ''data''] [(''base'', ''yes'')] [] [] \<noteq> Inr (False, [])"
  by (simp add: install_def install_try_def check_requirements_def scenario_alpha_def)

text \<open>An exception of class \<open>Exception\<close> never leaves \<open>install\<close>.\<close>

lemma install_raises_no_Exception:
  "install set_order copy_from_to self game_data_path install_settings existing_content descs
     = Inl ex \<Longrightarrow> \<not> is_Exception ex"
  by (auto simp add: install_def split: sum.splits if_splits)

text \<open>
  A prerequisite that \<open>check_requirement\<close> does not validate leaves a message, so
  \<open>check_requirements\<close> never answers \<open>False\<close> with an empty list of messages.
\<close>

lemma append_new_nonempty: "append_new x xs \<noteq> []"
  by (auto simp add: append_new_def)

lemma check_requirement_failure_msgs:
  "check_requirement set_order self prereq existing_content descs env = Inr r
   \<Longrightarrow> \<not> validated r \<Longrightarrow> error_msg r \<noteq> []"
  unfolding check_requirement_def Let_def
  by (auto simp add: append_new_nonempty split: sum.splits prod.splits if_splits)

lemma requirement_step_failure_msgs:
  "requirement_step set_order existing_content descs env prereq (met, messages, self, passed)
     = Inr (met', messages', self', passed')
   \<Longrightarrow> (\<not> met \<Longrightarrow> messages \<noteq> []) \<Longrightarrow> \<not> met' \<Longrightarrow> messages' \<noteq> []"
  unfolding requirement_step_def Let_def
  by (auto split: sum.splits dest: check_requirement_failure_msgs)

lemma requirements_loop_failure_msgs:
  "requirements_loop set_order existing_content descs env ps (met, messages, self, passed)
     = Inr (met', messages', self', passed')
   \<Longrightarrow> (\<not> met \<Longrightarrow> messages \<noteq> []) \<Longrightarrow> \<not> met' \<Longrightarrow> messages' \<noteq> []"
proof (induction ps arbitrary: met messages self passed)
  case Nil
  then show ?case by simp
next
  case (Cons p ps)
  show ?case
  proof (cases "skipped_prereq self p")
    case (Inl e)
    with Cons.prems(1) show ?thesis by simp
  next
    case (Inr skip)
    show ?thesis
    proof (cases skip)
      case True
      with Inr Cons.prems(1)
      have "requirements_loop set_order existing_content descs env ps
              (met, messages, self, passed @ [p]) = Inr (met', messages', self', passed')"
        by simp
      from Cons.IH [OF this Cons.prems(2) Cons.prems(3)] show ?thesis by simp
    next
      case False
      with Inr Cons.prems(1) obtain m1 ms1 s1 p1 where
        st: "requirement_step set_order existing_content descs env p (met, messages, self, passed)
               = Inr (m1, ms1, s1, p1)"
        and lp: "requirements_loop set_order existing_content descs env ps (m1, ms1, s1, p1)
               = Inr (met', messages', self', passed')"
        by (auto split: sum.splits)
      from requirement_step_failure_msgs [OF st Cons.prems(2)]
      have "\<not> m1 \<Longrightarrow> ms1 \<noteq> []" by simp
      from Cons.IH [OF lp this Cons.prems(3)] show ?thesis by simp
    qed
  qed
qed

lemma check_requirements_failure_msgs:
  "check_requirements set_order self existing_content descs patcher_version
     = Inr (False, messages, self')
   \<Longrightarrow> messages \<noteq> []"
  unfolding check_requirements_def Let_def
  by (auto split: sum.splits prod.splits if_splits dest: requirements_loop_failure_msgs)

text \<open>
  So \<open>install\<close> returns \<open>(False, [])\<close> exactly when its body raises an exception of class
  \<open>Exception\<close>: a failure of the requirements comes with its messages.
\<close>

lemma install_empty_failure_iff:
  "install set_order copy_from_to self game_data_path install_settings existing_content descs
     = Inr (False, [])
   \<longleftrightarrow> (\<exists>ex. install_try set_order copy_from_to self game_data_path install_settings
               existing_content descs = Inl ex \<and> is_Exception ex)"
  unfolding install_def install_try_def
  by (auto split: sum.splits prod.splits if_splits option.splits
      dest: check_requirements_failure_msgs)

text \<open>A failure of the requirements, with the messages that \<open>install\<close> returns.\<close>

lemma install_requirement_not_met:
  "install id (\<lambda>files dest. None) (scenario_alpha ''7'' [requires_beta [''>=2.0'']])
     [''game'', ''data''] [(''base'', ''yes'')] [] []
   = Inr (False, [Required_mod_not_found, Requirement_line True [''beta''] [''>=2.0''] [],
                  Check_for_a_new_version])"
  by (simp add: install_def install_try_def check_requirements_def requirement_step_def
      skipped_prereq_def append_new_def Let_def requirement_eval)

section \<open>Properties of \<open>validate_install_config\<close>\<close>

lemmas validate_eval =
  validate_install_config_def manifest_def manifest_entry_def validate_dict_def valid_field_def
  schema_fieds_top_def schema_prereqs_def dict_get_def patcher_options_part_def
  prerequisites_part_def incompatibles_part_def optional_content_part_def data_part_def
  validate_list_def schema_optional_content_def Let_def

text \<open>
  The two loops: \<open>validated\<close> can only fall and a flag can only rise; a forbidden entry
  sets the flag unless \<open>validated\<close> is false at the end; and a flag is set only by a
  forbidden entry.
\<close>

lemma prerequisites_loop_props:
  "prerequisites_loop entries (valid, flag) = Inr (valid', flag') \<Longrightarrow>
   (valid' \<longrightarrow> valid) \<and> (flag \<longrightarrow> flag')
   \<and> (valid' \<and> list_ex forbidden_prerequisite entries \<longrightarrow> flag')
   \<and> (flag' \<longrightarrow> flag \<or> list_ex forbidden_prerequisite entries)"
proof (induction entries arbitrary: valid flag)
  case Nil
  then show ?case by simp
next
  case (Cons entry entries)
  show ?case
  proof (cases "valid \<and> validate_dict entry schema_prereqs")
    case True
    with Cons.prems obtain listed where
      l: "compatch_in_names (entry_get entry ''name'') = Inr listed"
      and r: "prerequisites_loop entries
                (True, flag \<or> (listed \<and> py_bool (entry_get entry ''optional_content'')
                         \<and> entry_get entry ''optional_content'' \<noteq> YNull)) = Inr (valid', flag')"
      by (auto split: sum.splits)
    have n: "py_bool (entry_get entry ''optional_content'') \<Longrightarrow> entry_get entry ''optional_content'' \<noteq> YNull"
      by auto
    from Cons.IH [OF r] True l n show ?thesis
      by (auto simp: forbidden_prerequisite_def)
  next
    case False
    with Cons.prems have r: "prerequisites_loop entries (False, flag) = Inr (valid', flag')"
      by (auto split: sum.splits)
    from Cons.IH [OF r] show ?thesis by auto
  qed
qed

lemma incompatibles_entries_loop_props:
  "incompatibles_entries_loop entries (valid, flag) = Inr (valid', flag') \<Longrightarrow>
   (valid' \<longrightarrow> valid) \<and> (flag \<longrightarrow> flag')
   \<and> (valid' \<and> list_ex forbidden_incompatible entries \<longrightarrow> flag')
   \<and> (flag' \<longrightarrow> flag \<or> list_ex forbidden_incompatible entries)"
proof (induction entries arbitrary: valid flag)
  case Nil
  then show ?case by simp
next
  case (Cons entry entries)
  show ?case
  proof (cases "valid \<and> validate_dict entry schema_prereqs")
    case True
    with Cons.prems obtain listed where
      l: "compatch_in_name_set (entry_get entry ''name'') = Inr listed"
      and r: "incompatibles_entries_loop entries (True, flag \<or> listed) = Inr (valid', flag')"
      by (auto split: sum.splits)
    from Cons.IH [OF r] True l show ?thesis
      by (auto simp: forbidden_incompatible_def)
  next
    case False
    with Cons.prems have r: "incompatibles_entries_loop entries (False, flag) = Inr (valid', flag')"
      by (auto split: sum.splits)
    from Cons.IH [OF r] show ?thesis by auto
  qed
qed

text \<open>No part of the function turns a false \<open>validated\<close> into a true one.\<close>

lemma patcher_options_part_mono:
  "patcher_options_part cfg valid = Inr v \<Longrightarrow> v \<Longrightarrow> valid"
  by (auto simp: patcher_options_part_def split: if_splits sum.splits)

lemma prerequisites_part_mono:
  "prerequisites_part cfg valid = Inr v \<Longrightarrow> v \<Longrightarrow> valid"
  by (auto simp: prerequisites_part_def split: if_splits sum.splits dest: prerequisites_loop_props)

lemma incompatibles_part_mono:
  "incompatibles_part cfg valid = Inr v \<Longrightarrow> v \<Longrightarrow> valid"
  by (auto simp: incompatibles_part_def split: if_splits sum.splits
           dest: incompatibles_entries_loop_props)

lemma options_loop_mono:
  "options_loop options valid = Inr v \<Longrightarrow> v \<Longrightarrow> valid"
proof (induction options arbitrary: valid)
  case Nil
  then show ?case by simp
next
  case (Cons option options)
  from Cons.prems(1) obtain od where o: "option = YDict od"
    by (cases option) auto
  from Cons.prems(1) o obtain v3 where r: "options_loop options v3 = Inr v" and m: "v3 \<longrightarrow> valid"
    by (auto simp: Let_def split: sum.splits if_splits)
  from Cons.IH [OF r Cons.prems(2)] m show ?case by simp
qed

lemma optional_content_part_mono:
  "optional_content_part cfg valid = Inr v \<Longrightarrow> v \<Longrightarrow> valid"
  by (auto simp: optional_content_part_def split: if_splits sum.splits)

lemma settings_dirs_loop_mono:
  "settings_dirs_loop isdir mi od settings valid = Inr v \<Longrightarrow> v \<Longrightarrow> valid"
proof (induction settings arbitrary: valid)
  case Nil
  then show ?case by simp
next
  case (Cons setting settings)
  from Cons.prems(1) obtain found where
    "settings_dirs_loop isdir mi od settings (valid \<and> found) = Inr v"
    by (auto split: yaml.splits sum.splits)
  from Cons.IH [OF this Cons.prems(2)] show ?case by simp
qed

lemma options_dirs_loop_mono:
  "options_dirs_loop isdir mi options valid = Inr v \<Longrightarrow> v \<Longrightarrow> valid"
proof (induction options arbitrary: valid)
  case Nil
  then show ?case by simp
next
  case (Cons option options)
  from Cons.prems(1) obtain v2 where r: "options_dirs_loop isdir mi options v2 = Inr v"
    and m: "v2 \<longrightarrow> valid"
    by (auto split: yaml.splits sum.splits if_splits dest: settings_dirs_loop_mono)
  from Cons.IH [OF r Cons.prems(2)] m show ?case by simp
qed

lemma data_part_mono:
  "data_part isdir cfg valid = Inr v \<Longrightarrow> v \<Longrightarrow> valid"
  by (auto simp: data_part_def Let_def split: if_splits sum.splits dest: options_dirs_loop_mono)


lemma validate_install_config_parts:
  assumes "validate_install_config isdir (YDict cfg) skip = Inr True"
  shows "\<exists>v1. patcher_options_part cfg True = Inr v1
              \<and> prerequisites_part cfg v1 = Inr True
              \<and> incompatibles_part cfg True = Inr True"
proof -
  from assms obtain v1 v2 v3 v4 where
    p: "patcher_options_part cfg True = Inr v1"
    and q: "prerequisites_part cfg v1 = Inr v2"
    and i: "incompatibles_part cfg v2 = Inr v3"
    and oc: "optional_content_part cfg v3 = Inr v4"
    and d: "skip \<and> v4 \<or> data_part isdir cfg v4 = Inr True"
    by (auto simp: validate_install_config_def split: if_splits sum.splits)
  from d have "v4" using data_part_mono by blast
  with oc have "v3" using optional_content_part_mono by blast
  with i have "v2" using incompatibles_part_mono by blast
  with p q i \<open>v3\<close> show ?thesis by auto
qed

lemma rejects_forbidden_prerequisite:
  assumes "dict_get cfg ''prerequisites'' = YList entries"
    and "list_ex forbidden_prerequisite entries"
  shows "validate_install_config isdir (YDict cfg) skip \<noteq> Inr True"
proof
  assume "validate_install_config isdir (YDict cfg) skip = Inr True"
  from validate_install_config_parts [OF this] obtain v1 where
    "prerequisites_part cfg v1 = Inr True" by blast
  with assms(1) obtain valid' flag where
    l: "prerequisites_loop entries (v1, False) = Inr (valid', flag)" and v: "valid'" "\<not> flag"
    by (auto simp: prerequisites_part_def split: sum.splits)
  from prerequisites_loop_props [OF l] v assms(2) show False by simp
qed

lemma rejects_forbidden_incompatible:
  assumes "dict_get cfg ''incompatible'' = YList entries"
    and "list_ex forbidden_incompatible entries"
  shows "validate_install_config isdir (YDict cfg) skip \<noteq> Inr True"
proof
  assume "validate_install_config isdir (YDict cfg) skip = Inr True"
  from validate_install_config_parts [OF this]
  have "incompatibles_part cfg True = Inr True" by blast
  with assms(1) obtain valid' flag where
    l: "incompatibles_entries_loop entries (True, False) = Inr (valid', flag)"
    and v: "valid'" "\<not> flag"
    by (auto simp: incompatibles_part_def split: sum.splits)
  from incompatibles_entries_loop_props [OF l] v assms(2) show False by simp
qed

lemma no_forbidden_no_flag:
  "prerequisites_loop entries (valid, False) = Inr (valid', flag)
   \<Longrightarrow> \<not> list_ex forbidden_prerequisite entries \<Longrightarrow> \<not> flag"
  "incompatibles_entries_loop entries (valid, False) = Inr (valid', flag)
   \<Longrightarrow> \<not> list_ex forbidden_incompatible entries \<Longrightarrow> \<not> flag"
  using prerequisites_loop_props incompatibles_entries_loop_props by blast+

text \<open>What the validation of the top level establishes, and the parts that cannot
  raise when the names are strings or lists of strings.\<close>

lemma top_level_facts:
  assumes "validate_dict (YDict cfg) schema_fieds_top"
  shows "\<exists>s. dict_get cfg ''name'' = YStr s"
    and "\<exists>entries. dict_get cfg ''prerequisites'' = YList entries"
    and "dict_get cfg ''incompatible'' = YNull \<or> (\<exists>entries. dict_get cfg ''incompatible'' = YList entries)"
    and "dict_get cfg ''optional_content'' = YNull \<or> (\<exists>options. dict_get cfg ''optional_content'' = YList options)"
    and "dict_get cfg ''patcher_options'' = YNull \<or> (\<exists>d. dict_get cfg ''patcher_options'' = YDict d)"
proof -
  from assms have f: "valid_field cfg (''name'', [Plain Tstr], True)"
     "valid_field cfg (''prerequisites'', [Plain Tlist], True)"
     "valid_field cfg (''incompatible'', [Plain Tlist], False)"
     "valid_field cfg (''optional_content'', [Plain Tlist], False)"
     "valid_field cfg (''patcher_options'', [Plain Tdict], False)"
    by (simp_all add: validate_dict_def schema_fieds_top_def)
  from f(1) show "\<exists>s. dict_get cfg ''name'' = YStr s"
    by (cases "dict_get cfg ''name''") (auto simp: valid_field_def)
  from f(2) show "\<exists>entries. dict_get cfg ''prerequisites'' = YList entries"
    by (cases "dict_get cfg ''prerequisites''") (auto simp: valid_field_def)
  from f(3) show "dict_get cfg ''incompatible'' = YNull \<or> (\<exists>entries. dict_get cfg ''incompatible'' = YList entries)"
    by (cases "dict_get cfg ''incompatible''") (auto simp: valid_field_def)
  from f(4) show "dict_get cfg ''optional_content'' = YNull \<or> (\<exists>options. dict_get cfg ''optional_content'' = YList options)"
    by (cases "dict_get cfg ''optional_content''") (auto simp: valid_field_def)
  from f(5) show "dict_get cfg ''patcher_options'' = YNull \<or> (\<exists>d. dict_get cfg ''patcher_options'' = YDict d)"
    by (cases "dict_get cfg ''patcher_options''") (auto simp: valid_field_def)
qed

lemma constrained_loop_total:
  "list_all (\<lambda>entry. case entry of (field, types, required, bounds) \<Rightarrow>
               bounds \<noteq> None \<or> (Tfloat \<notin> set types \<and> Tint \<notin> set types)) scheme
   \<Longrightarrow> \<exists>ok. constrained_loop d scheme = Inr ok"
proof (induction scheme)
  case Nil
  then show ?case by auto
next
  case (Cons entry scheme)
  obtain field types required bounds where e: "entry = (field, types, required, bounds)"
    by (cases entry) auto
  from Cons.prems e have b: "bounds \<noteq> None \<or> (Tfloat \<notin> set types \<and> Tint \<notin> set types)"
    and r: "list_all (\<lambda>entry. case entry of (field, types, required, bounds) \<Rightarrow>
               bounds \<noteq> None \<or> (Tfloat \<notin> set types \<and> Tint \<notin> set types)) scheme"
    by simp_all
  from Cons.IH [OF r] obtain ok where "constrained_loop d scheme = Inr ok" by blast
  with b e show ?case by (auto simp: Let_def)
qed

lemma constrained_loop_patcher_total:
  "\<exists>ok. constrained_loop d schema_patcher_options = Inr ok"
  by (rule constrained_loop_total) (simp add: schema_patcher_options_def)

lemma compatch_in_names_total:
  "well_typed_name v \<Longrightarrow> \<exists>listed. compatch_in_names v = Inr listed"
  by (cases v) auto

lemma compatch_in_name_set_total:
  "well_typed_name v \<Longrightarrow> \<exists>listed. compatch_in_name_set v = Inr listed"
proof (cases v)
  case (YList xs)
  assume "well_typed_name v"
  with YList have "list_all is_str xs" by simp
  then have "\<not> list_ex (\<lambda>x. case x of YList ys \<Rightarrow> True | YDict d \<Rightarrow> True | _ \<Rightarrow> False) xs"
    by (induction xs) (auto split: yaml.splits)
  with YList show ?thesis by simp
qed auto

lemma prerequisites_loop_total:
  "well_typed_names entries \<Longrightarrow> \<exists>r. prerequisites_loop entries (valid, flag) = Inr r"
proof (induction entries arbitrary: valid flag)
  case Nil
  then show ?case by simp
next
  case (Cons entry entries)
  then have w: "well_typed_names entries" by (simp add: well_typed_names_def)
  show ?case
  proof (cases "valid \<and> validate_dict entry schema_prereqs")
    case True
    with Cons.prems have "well_typed_name (entry_get entry ''name'')"
      by (simp add: well_typed_names_def)
    from compatch_in_names_total [OF this] obtain listed where
      "compatch_in_names (entry_get entry ''name'') = Inr listed" by blast
    with True Cons.IH [OF w] show ?thesis by simp
  next
    case False
    with Cons.IH [OF w, of False flag] show ?thesis by auto
  qed
qed

lemma incompatibles_entries_loop_total:
  "well_typed_names entries \<Longrightarrow> \<exists>r. incompatibles_entries_loop entries (valid, flag) = Inr r"
proof (induction entries arbitrary: valid flag)
  case Nil
  then show ?case by simp
next
  case (Cons entry entries)
  then have w: "well_typed_names entries" by (simp add: well_typed_names_def)
  show ?case
  proof (cases "valid \<and> validate_dict entry schema_prereqs")
    case True
    with Cons.prems have "well_typed_name (entry_get entry ''name'')"
      by (simp add: well_typed_names_def)
    from compatch_in_name_set_total [OF this] obtain listed where
      "compatch_in_name_set (entry_get entry ''name'') = Inr listed" by blast
    with True Cons.IH [OF w] show ?thesis by simp
  next
    case False
    with Cons.IH [OF w, of False flag] show ?thesis by auto
  qed
qed

lemma returns_false_on_forbidden:
  assumes p: "dict_get cfg ''prerequisites'' = YList entries"
    and i: "dict_get cfg ''incompatible'' = YList others \<or> (dict_get cfg ''incompatible'' = YNull \<and> others = [])"
    and f: "list_ex forbidden_prerequisite entries \<or> list_ex forbidden_incompatible others"
    and w: "well_typed_names entries" "well_typed_names others"
    and s: "skip \<or> dict_get cfg ''optional_content'' = YNull"
  shows "validate_install_config isdir (YDict cfg) skip = Inr False"
proof (cases "validate_dict (YDict cfg) schema_fieds_top")
  case False
  then show ?thesis by (simp add: validate_install_config_def)
next
  case True
  note t = top_level_facts [OF True]
  have "\<exists>v1. patcher_options_part cfg True = Inr v1"
  proof (cases "dict_get cfg ''patcher_options'' = YNull")
    case True
    then show ?thesis by (auto simp: patcher_options_part_def)
  next
    case False
    with t(5) obtain d where d: "dict_get cfg ''patcher_options'' = YDict d" by blast
    from constrained_loop_patcher_total obtain ok where
      "constrained_loop d schema_patcher_options = Inr ok" by blast
    with d show ?thesis by (auto simp: patcher_options_part_def validate_dict_constrained_def)
  qed
  then obtain v1 where 1: "patcher_options_part cfg True = Inr v1" by blast
  from prerequisites_loop_total [OF w(1), of v1 False] p obtain v2 where
    2: "prerequisites_part cfg v1 = Inr v2"
    by (auto simp: prerequisites_part_def)
  from incompatibles_entries_loop_total [OF w(2), of v2 False] i obtain v3 where
    3: "incompatibles_part cfg v2 = Inr v3"
    by (auto simp: incompatibles_part_def)
  have "\<exists>v4. optional_content_part cfg v3 = Inr v4 \<or> v3"
  proof (cases "dict_get cfg ''optional_content'' = YNull")
    case True
    then show ?thesis by (auto simp: optional_content_part_def)
  next
    case False
    with t(4) obtain options where "dict_get cfg ''optional_content'' = YList options" by blast
    then show ?thesis by (auto simp: optional_content_part_def validate_list_def)
  qed
  then obtain v4 where 4: "optional_content_part cfg v3 = Inr v4 \<or> v3" by blast
  have n3: "\<not> v3"
  proof
    assume v3: "v3"
    with 3 have v2: "v2" using incompatibles_part_mono by blast
    from f show False
    proof
      assume fp: "list_ex forbidden_prerequisite entries"
      from 2 v2 p obtain valid' flag where
        l: "prerequisites_loop entries (v1, False) = Inr (valid', flag)" and v: "valid'" "\<not> flag"
        by (auto simp: prerequisites_part_def split: sum.splits)
      from prerequisites_loop_props [OF l] v fp show False by simp
    next
      assume fi: "list_ex forbidden_incompatible others"
      then have "others \<noteq> []" by auto
      with i have i': "dict_get cfg ''incompatible'' = YList others" by auto
      from 3 v3 i' obtain valid' flag where
        l: "incompatibles_entries_loop others (v2, False) = Inr (valid', flag)"
        and v: "valid'" "\<not> flag"
        by (auto simp: incompatibles_part_def split: sum.splits)
      from incompatibles_entries_loop_props [OF l] v fi show False by simp
    qed
  qed
  with 4 have o4: "optional_content_part cfg v3 = Inr v4" by simp
  with n3 have n4: "\<not> v4" using optional_content_part_mono by blast
  show ?thesis
  proof (cases skip)
    case True
    with \<open>validate_dict (YDict cfg) schema_fieds_top\<close> 1 2 3 o4 n4 show ?thesis
      by (simp add: validate_install_config_def)
  next
    case False
    with s have n: "dict_get cfg ''optional_content'' = YNull" by simp
    from t(1) obtain nm where "dict_get cfg ''name'' = YStr nm" by blast
    with n n4 have "data_part isdir cfg v4 = Inr False"
      by (auto simp: data_part_def isdir_joined_def Let_def)
    with False \<open>validate_dict (YDict cfg) schema_fieds_top\<close> 1 2 3 o4 show ?thesis
      by (simp add: validate_install_config_def)
  qed
qed

text \<open>
  Together: a manifest with a forbidden entry is never accepted
  (\<open>rejects_forbidden_prerequisite\<close>, \<open>rejects_forbidden_incompatible\<close>); when the names of
  its entries are strings or lists of strings, and the directories are not checked or there
  is no optional content, the function returns \<open>False\<close> (\<open>returns_false_on_forbidden\<close>);
  and without a forbidden entry neither flag is set (\<open>no_forbidden_no_flag\<close>).
\<close>

lemma forbidden_prerequisite_rejected:
  "validate_install_config (\<lambda>p. True)
     (manifest [manifest_entry (YStr ''community_patch'') (YList [YStr ''x''])] YNull YNull) True
   = Inr False"
  by (simp add: validate_eval)

lemma forbidden_incompatible_rejected:
  "validate_install_config (\<lambda>p. True)
     (manifest [] (YList [manifest_entry (YList [YStr ''beta'', YStr ''community_patch'']) YNull])
        YNull) False
   = Inr False"
  by (simp add: validate_eval isdir_joined_def)

lemma other_prerequisite_accepted:
  "validate_install_config (\<lambda>p. True)
     (manifest [manifest_entry (YStr ''beta'') (YList [YStr ''x''])] YNull YNull) True
   = Inr True"
  by (simp add: validate_eval)

text \<open>
  C7, at inputs where code and claim part. The second prerequisite of the manifest names
  \<open>community_patch\<close> and has optional content. In the first manifest another prerequisite
  has the name \<open>5\<close>: \<open>validate_dict\<close> accepts it (with a generic type in the list of
  types it checks lists only), and \<open>"community_patch" in 5\<close> raises \<open>TypeError\<close>. In the
  second manifest \<open>optional_content\<close> holds a string: the check of the directories calls
  \<open>get\<close> on it and raises \<open>AttributeError\<close>. The function returns nothing in both cases.
\<close>

theorem validate_install_config_raises:
  "forbidden_prerequisite (manifest_entry (YStr ''community_patch'') (YList [YStr ''x'']))
   \<and> validate_install_config (\<lambda>p. True)
       (manifest [manifest_entry (YInt 5) YNull,
                  manifest_entry (YStr ''community_patch'') (YList [YStr ''x''])] YNull YNull)
       True
     = Inl TypeError
   \<and> validate_install_config (\<lambda>p. True)
       (manifest [manifest_entry (YStr ''community_patch'') (YList [YStr ''x''])] YNull
          (YList [YStr ''junk''])) False
     = Inl AttributeError"
  by (simp add: validate_eval isdir_joined_def forbidden_prerequisite_def)

end
